theory Spec2Isabelle
  imports Complex_Main
begin

section \<open>Signal-to-order pipeline of the MT5 gateway\<close>

text \<open>
  A shallow embedding of \<^verbatim>\<open>app/mt5/trading.py\<close> (class \<^verbatim>\<open>TradingEngine\<close>) and
  \<^verbatim>\<open>app/mt5/account.py\<close> (class \<^verbatim>\<open>AccountManager\<close>).

  Conventions of the embedding:
  \<^item> a Python \<^verbatim>\<open>float\<close> is a double, a rational number (\<^typ>\<open>rat\<close>) that IEEE 754
    binary64 can hold; \<open>fl x\<close> is the double nearest to \<open>x\<close>, and the model reads every
    float input of the sizing and of the margin check through \<open>fl\<close>, so that a field
    written 0.01 stands for the double 0.01;
  \<^item> in position sizing, in the stop distance in points and in the margin check, where a
    rounding decides a discrete outcome (\<^verbatim>\<open>round\<close>, \<^verbatim>\<open><=\<close>, \<^verbatim>\<open>>=\<close>), every arithmetic
    operation of the source is the exact operation followed by \<open>fl\<close>, which is what
    IEEE 754 prescribes; the range limit of doubles (infinities, NaN) is not modelled;
  \<^item> in resolving the stop and target prices the arithmetic is exact: there the doubles
    of the source differ from the model in the last place only;
  \<^item> a \<^verbatim>\<open>datetime\<close> is an integer number of microseconds (the resolution of
    \<^verbatim>\<open>datetime\<close>);
  \<^item> \<^verbatim>\<open>Optional[T]\<close> is \<^typ>\<open>'a option\<close>; Python's truth test \<^verbatim>\<open>if x:\<close> on such
    a value is written out (\<open>None\<close> and zero are false);
  \<^item> the \<^verbatim>\<open>MetaTrader5\<close> module and the \<^verbatim>\<open>MT5Client\<close> are a record of constants
    and pure functions, a parameter of every operation that talks to the broker; within
    one operation the broker's data do not change, so a value that the source fetches
    twice is the same both times;
  \<^item> the engine's mutable state is passed explicitly: the idempotency cache and the
    list of effectful broker calls made so far;
  \<^item> an exception caught by the source's \<^verbatim>\<open>try/except\<close> is a branch of the model.
\<close>

subsection \<open>Data model\<close>

type_synonym datetime = int

datatype OrderType = MARKET | LIMIT | STOP | STOP_LIMIT

datatype OrderSide = BUY | SELL

record RiskConfig =
  percent :: rat
  fixed_amount :: "rat option"
  max_risk_per_trade :: rat

record StopLossConfig =
  slc_pips :: "int option"
  slc_price :: "rat option"
  slc_atr_multiplier :: "rat option"

record TakeProfitConfig =
  tpc_pips :: "int option"
  tpc_price :: "rat option"
  tpc_risk_reward_ratio :: "rat option"

record TradingSignal =
  strategy :: string
  symbol :: string
  side :: OrderSide
  order_type :: OrderType
  risk :: RiskConfig
  sl :: StopLossConfig
  tp :: TakeProfitConfig
  price :: "rat option"
  comment :: string
  idempotency_key :: string
  magic_number :: int

text \<open>Python exceptions that the modelled code can raise and catch.\<close>

datatype py_error = ZeroDivisionError | AttributeError

text \<open>
  The texts of \<^verbatim>\<open>OrderResult.error_message\<close>, one constructor per message of
  \<^verbatim>\<open>execute_signal\<close>:
  \<^item> \<open>KeyAlreadyUsed\<close>: "Idempotency-Key bereits verwendet";
  \<^item> \<open>SymbolNotAvailable s\<close>: "Symbol s nicht verfuegbar";
  \<^item> \<open>SymbolInfoNotAvailable s\<close>: "Symbol-Info fuer s nicht verfuegbar";
  \<^item> \<open>PriceNotAvailable s\<close>: "Aktueller Preis fuer s nicht verfuegbar";
  \<^item> \<open>LotSizeNotComputed\<close>: "Lot-Groesse konnte nicht berechnet werden";
  \<^item> \<open>OrderFailed c\<close>: "Order fehlgeschlagen: c";
  \<^item> \<open>InternalError e\<close>: "Interner Fehler: e".
\<close>

datatype error_message =
    KeyAlreadyUsed
  | SymbolNotAvailable string
  | SymbolInfoNotAvailable string
  | PriceNotAvailable string
  | LotSizeNotComputed
  | OrderFailed string
  | InternalError py_error

record OrderResult =
  success :: bool
  order_id :: "int option"
  position_id :: "int option"
  executed_price :: "rat option"
  sl_price :: "rat option"
  tp_price :: "rat option"
  lot_size :: "rat option"
  error_message :: "error_message option"
  server_time :: "int option"

text \<open>The fields of \<^verbatim>\<open>Config\<close> that the engine reads (\<^verbatim>\<open>app/config.py\<close>).\<close>

record Config =
  MIN_LOT_SIZE :: rat
  MAX_LOT_SIZE :: rat
  LOT_STEP :: rat
  STOP_LEVEL_PIPS :: int

text \<open>\<^verbatim>\<open>SymbolInfo\<close> of \<^verbatim>\<open>app/mt5/__init__.py\<close>.\<close>

record SymbolInfo =
  name :: string
  digits :: int
  point :: rat
  tick_value :: rat
  contract_size :: rat
  margin_required :: rat
  spread :: int
  is_trade_allowed :: bool

text \<open>
  The numeric entries of the dictionary returned by \<^verbatim>\<open>MT5Client.get_account_info\<close>,
  which are also the numeric fields of \<^verbatim>\<open>AccountSummary\<close>.
\<close>

record AccountInfo =
  balance :: rat
  equity :: rat
  margin :: rat
  free_margin :: rat
  margin_level :: rat
  leverage :: int
  profit :: rat

text \<open>What the code reads of an \<^verbatim>\<open>mt5.symbol_info_tick\<close> result.\<close>

record Tick =
  bid :: rat
  ask :: rat

text \<open>What \<^verbatim>\<open>AccountManager\<close> reads of a raw \<^verbatim>\<open>mt5.symbol_info\<close> result.\<close>

record RawSymbolInfo =
  raw_margin_required :: rat
  raw_margin_mode :: int
  raw_margin_rate :: rat
  raw_trade_contract_size :: rat

text \<open>A position as returned by \<^verbatim>\<open>mt5.positions_get\<close>.\<close>

record Position =
  pos_ticket :: int
  pos_symbol :: string
  pos_type :: int
  pos_volume :: rat
  pos_sl :: rat
  pos_tp :: rat
  pos_magic :: int

text \<open>
  The request dictionary passed to \<^verbatim>\<open>mt5.order_send\<close>. A key that one of the three
  request shapes of the source does not set is \<open>None\<close>.
\<close>

record TradeRequest =
  rq_action :: int
  rq_symbol :: string
  rq_volume :: "rat option"
  rq_type :: "int option"
  rq_position :: "int option"
  rq_price :: "rat option"
  rq_sl :: "rat option"
  rq_tp :: "rat option"
  rq_deviation :: "int option"
  rq_magic :: "int option"
  rq_comment :: "string option"
  rq_type_time :: "int option"
  rq_type_filling :: "int option"

text \<open>What the code reads of an \<^verbatim>\<open>mt5.order_send\<close> result.\<close>

record SendResult =
  res_retcode :: int
  res_order :: int
  res_position :: int
  res_price :: rat
  res_comment :: string
  res_time :: int

text \<open>
  The broker side. The constants of the \<^verbatim>\<open>MetaTrader5\<close> package are not part of the
  repository and are taken as parameters. \<open>subscribe_symbol\<close> and \<open>get_symbol_info\<close>
  and \<open>get_account_info\<close> are the methods of \<^verbatim>\<open>MT5Client\<close> (each catches its own
  exceptions and answers \<open>False\<close> or \<open>None\<close>); the others are functions of the package.
  \<open>order_send\<close> answers \<open>None\<close> when the terminal gives no result. \<open>positions_get\<close>
  answers the empty list for both \<^verbatim>\<open>None\<close> and an empty tuple, which the source does not
  tell apart (\<^verbatim>\<open>if not position\<close>).
\<close>

record MT5 =
  TRADE_ACTION_DEAL :: int
  TRADE_ACTION_SLTP :: int
  ORDER_TYPE_BUY :: int
  ORDER_TYPE_SELL :: int
  ORDER_TIME_GTC :: int
  ORDER_FILLING_IOC :: int
  TRADE_RETCODE_DONE :: int
  POSITION_TYPE_BUY :: int
  SYMBOL_CALC_MODE_FOREX :: int
  SYMBOL_CALC_MODE_FUTURES :: int
  subscribe_symbol :: "string \<Rightarrow> bool"
  get_symbol_info :: "string \<Rightarrow> SymbolInfo option"
  get_account_info :: "AccountInfo option"
  symbol_info_tick :: "string \<Rightarrow> Tick option"
  symbol_info :: "string \<Rightarrow> RawSymbolInfo option"
  positions_get :: "int \<Rightarrow> Position list"
  order_send :: "TradeRequest \<Rightarrow> SendResult option"

text \<open>The effectful calls to the broker, in the order they are made.\<close>

datatype broker_call = Subscribe string | OrderSend TradeRequest

record Engine =
  idempotency_cache :: "string \<rightharpoonup> datetime"
  calls :: "broker_call list"

subsection \<open>Python primitives\<close>

text \<open>The truth value of an \<^verbatim>\<open>Optional\<close> number: \<^verbatim>\<open>None\<close> and zero are false.\<close>

definition truthy :: "'a::zero option \<Rightarrow> bool" where
  "truthy x = (case x of None \<Rightarrow> False | Some v \<Rightarrow> v \<noteq> 0)"

text \<open>\<^verbatim>\<open>x or d\<close> on an \<^verbatim>\<open>Optional\<close> number.\<close>

definition or_else :: "'a::zero option \<Rightarrow> 'a \<Rightarrow> 'a" where
  "or_else x d = (case x of None \<Rightarrow> d | Some v \<Rightarrow> if v \<noteq> 0 then v else d)"

text \<open>
  Python 3's built-in \<^verbatim>\<open>round(x)\<close> with one argument: the nearest integer, a tie going
  to the even one.
\<close>

definition py_round :: "rat \<Rightarrow> int" where
  "py_round x =
     (let f = \<lfloor>x\<rfloor>; d = x - of_int f
      in if d < 1 / 2 then f
         else if 1 / 2 < d then f + 1
         else if even f then f else f + 1)"

subsection \<open>Double arithmetic\<close>

text \<open>Python's \<^verbatim>\<open>int.bit_length\<close> of a positive integer.\<close>

fun bit_length :: "int \<Rightarrow> nat" where
  "bit_length n = (if n \<le> 0 then 0 else Suc (bit_length (n div 2)))"

declare bit_length.simps [simp del]

definition pow2 :: "int \<Rightarrow> rat" where
  "pow2 e = (if 0 \<le> e then 2 ^ nat e else 1 / 2 ^ nat (- e))"

text \<open>
  The binary exponent of a rational other than zero: the \<open>e\<close> with
  \<open>2 ^ e \<le> \<bar>x\<bar> < 2 ^ (e + 1)\<close>. It is either the difference of the bit lengths of
  numerator and denominator or one less.
\<close>

definition exponent :: "rat \<Rightarrow> int" where
  "exponent x =
     (case quotient_of \<bar>x\<bar> of
        (p, q) \<Rightarrow>
          let d = int (bit_length p) - int (bit_length q)
          in if pow2 d \<le> \<bar>x\<bar> then d else d - 1)"

text \<open>
  The double nearest to a rational, a tie going to the even significand (the rounding
  of IEEE 754 binary64): doubles with exponent \<open>e\<close> are the multiples of
  \<open>2 ^ (e - 52)\<close>, and below \<open>2 ^ (- 1022)\<close> the subnormal doubles are the multiples
  of \<open>2 ^ (- 1074)\<close>. Doubles have no exponent above 1023; the model has no such limit.
\<close>

definition fl :: "rat \<Rightarrow> rat" where
  "fl x =
     (if x = 0 then 0
      else
        let e = max (exponent x) (- 1022);
            ulp = pow2 (e - 52)
        in of_int (py_round (x / ulp)) * ulp)"

text \<open>The operations \<^verbatim>\<open>*\<close>, \<^verbatim>\<open>/\<close> and \<^verbatim>\<open>-\<close> on two doubles.\<close>

definition fmul :: "rat \<Rightarrow> rat \<Rightarrow> rat" where
  "fmul a b = fl (a * b)"

definition fdiv :: "rat \<Rightarrow> rat \<Rightarrow> rat" where
  "fdiv a b = fl (a / b)"

definition fsub :: "rat \<Rightarrow> rat \<Rightarrow> rat" where
  "fsub a b = fl (a - b)"

subsection \<open>Idempotency guard\<close>

text \<open>\<^verbatim>\<open>self.idempotency_ttl = 3600\<close> seconds, in microseconds.\<close>

definition idempotency_ttl :: int where
  "idempotency_ttl = 3600 * 1000000"

text \<open>
  \<^verbatim>\<open>TradingEngine.validate_idempotency\<close>. The source reads the clock twice,
  \<open>now\<close> for the stamp of the new record and \<open>now'\<close> for the cutoff of the sweep.
  The result is the answer and the cache after the call.
\<close>

definition validate_idempotency ::
  "string \<Rightarrow> datetime \<Rightarrow> datetime \<Rightarrow> (string \<rightharpoonup> datetime) \<Rightarrow> bool \<times> (string \<rightharpoonup> datetime)" where
  "validate_idempotency key now now' cache =
     (if key = [] then (True, cache)
      else if cache key \<noteq> None then (False, cache)
      else
        let cache1 = cache(key \<mapsto> now);
            cutoff = now' - idempotency_ttl
        in (True, (\<lambda>k. case cache1 k of
                          None \<Rightarrow> None
                        | Some v \<Rightarrow> if v > cutoff then Some v else None)))"

subsection \<open>Position sizing\<close>

text \<open>
  \<^verbatim>\<open>TradingEngine.calculate_lot_size\<close>, in double arithmetic. \<open>None\<close> is the source's
  \<^verbatim>\<open>return None\<close>: symbol or account data missing, a loss per lot that is not positive,
  or the \<^verbatim>\<open>ZeroDivisionError\<close> of a zero \<^verbatim>\<open>LOT_STEP\<close>, which the function catches itself.
  The integer that \<^verbatim>\<open>round\<close> returns is converted to a double for the last product.
\<close>

definition calculate_lot_size ::
  "Config \<Rightarrow> MT5 \<Rightarrow> string \<Rightarrow> RiskConfig \<Rightarrow> rat \<Rightarrow> rat option" where
  "calculate_lot_size cfg m smb risk_config sl_points =
     (case get_symbol_info m smb of
        None \<Rightarrow> None
      | Some si \<Rightarrow>
          (case get_account_info m of
             None \<Rightarrow> None
           | Some account_info \<Rightarrow>
               let bal = fl (balance account_info);
                   risk_amount0 =
                     (case fixed_amount risk_config of
                        None \<Rightarrow> fmul bal (fdiv (fl (percent risk_config)) 100)
                      | Some a \<Rightarrow>
                          if fl a \<noteq> 0 then fl a
                          else fmul bal (fdiv (fl (percent risk_config)) 100));
                   max_risk = fmul bal (fdiv (fl (max_risk_per_trade risk_config)) 100);
                   risk_amount = min risk_amount0 max_risk;
                   point_value = fmul (fl (tick_value si)) (fl (contract_size si));
                   loss_per_lot = fmul (fmul (fl sl_points) (fl (point si))) point_value
               in if loss_per_lot \<le> 0 then None
                  else
                    let lot0 = fdiv risk_amount loss_per_lot;
                        lot1 = max lot0 (fl (MIN_LOT_SIZE cfg));
                        lot2 = min lot1 (fl (MAX_LOT_SIZE cfg))
                    in if fl (LOT_STEP cfg) = 0 then None
                       else Some (fmul (fl (of_int (py_round (fdiv lot2 (fl (LOT_STEP cfg))))))
                                    (fl (LOT_STEP cfg)))))"

subsection \<open>Stop and target prices\<close>

text \<open>
  \<^verbatim>\<open>TradingEngine.calculate_sl_tp_prices\<close>, block by block. First the block
  "Stop-Loss berechnen" (lines 149 to 157): the pip distance if it is set and not zero,
  else the explicit price if it is set and not zero.
\<close>

definition stop_loss_block :: "SymbolInfo \<Rightarrow> OrderSide \<Rightarrow> rat \<Rightarrow> StopLossConfig \<Rightarrow> rat option" where
  "stop_loss_block si sd entry_price sl_config =
     (if truthy (slc_pips sl_config) then
        let pip_value = of_int (or_else (slc_pips sl_config) 0) * point si
        in if sd = BUY then Some (entry_price - pip_value) else Some (entry_price + pip_value)
      else if truthy (slc_price sl_config) then slc_price sl_config
      else None)"

text \<open>
  The block "Take-Profit berechnen" (lines 159 to 174); \<open>sl0\<close> is the stop price that
  the block before has computed.
\<close>

definition take_profit_block ::
  "SymbolInfo \<Rightarrow> OrderSide \<Rightarrow> rat \<Rightarrow> TakeProfitConfig \<Rightarrow> rat option \<Rightarrow> rat option" where
  "take_profit_block si sd entry_price tp_config sl0 =
     (if truthy (tpc_pips tp_config) then
        let pip_value = of_int (or_else (tpc_pips tp_config) 0) * point si
        in if sd = BUY then Some (entry_price + pip_value) else Some (entry_price - pip_value)
      else if truthy (tpc_price tp_config) then tpc_price tp_config
      else if truthy (tpc_risk_reward_ratio tp_config) \<and> truthy sl0 then
        let risk_dist = \<bar>entry_price - or_else sl0 0\<bar>;
            reward = risk_dist * or_else (tpc_risk_reward_ratio tp_config) 0
        in if sd = BUY then Some (entry_price + reward) else Some (entry_price - reward)
      else None)"

text \<open>
  The block "Mindestabstand pruefen" (lines 176 to 188), for the stop and for the
  target. A price of zero fails the truth test \<^verbatim>\<open>if sl_price and ...\<close> and is returned
  as it is.
\<close>

definition min_distance_sl :: "OrderSide \<Rightarrow> rat \<Rightarrow> rat \<Rightarrow> rat option \<Rightarrow> rat option" where
  "min_distance_sl sd entry_price min_distance sl0 =
     (case sl0 of
        None \<Rightarrow> None
      | Some p \<Rightarrow>
          if p \<noteq> 0 \<and> \<bar>entry_price - p\<bar> < min_distance then
            (if sd = BUY then Some (entry_price - min_distance)
             else Some (entry_price + min_distance))
          else Some p)"

definition min_distance_tp :: "OrderSide \<Rightarrow> rat \<Rightarrow> rat \<Rightarrow> rat option \<Rightarrow> rat option" where
  "min_distance_tp sd entry_price min_distance tp0 =
     (case tp0 of
        None \<Rightarrow> None
      | Some p \<Rightarrow>
          if p \<noteq> 0 \<and> \<bar>entry_price - p\<bar> < min_distance then
            (if sd = BUY then Some (entry_price + min_distance)
             else Some (entry_price - min_distance))
          else Some p)"

definition calculate_sl_tp_prices ::
  "Config \<Rightarrow> MT5 \<Rightarrow> string \<Rightarrow> OrderSide \<Rightarrow> rat \<Rightarrow> StopLossConfig \<Rightarrow> TakeProfitConfig
     \<Rightarrow> rat option \<times> rat option" where
  "calculate_sl_tp_prices cfg m smb sd entry_price sl_config tp_config =
     (case get_symbol_info m smb of
        None \<Rightarrow> (None, None)
      | Some si \<Rightarrow>
          let sl0 = stop_loss_block si sd entry_price sl_config;
              tp0 = take_profit_block si sd entry_price tp_config sl0;
              min_distance = of_int (STOP_LEVEL_PIPS cfg) * point si
          in (min_distance_sl sd entry_price min_distance sl0,
              min_distance_tp sd entry_price min_distance tp0))"

subsection \<open>Executing a signal\<close>

text \<open>An \<^verbatim>\<open>OrderResult\<close> that carries only \<^verbatim>\<open>success=False\<close> and a message.\<close>

definition failure :: "error_message \<Rightarrow> OrderResult" where
  "failure msg =
     \<lparr>success = False, order_id = None, position_id = None, executed_price = None,
      sl_price = None, tp_price = None, lot_size = None, error_message = Some msg,
      server_time = None\<rparr>"

text \<open>
  The block "SL-Punkte berechnen" of \<^verbatim>\<open>execute_signal\<close> (lines 252 to 257), in double
  arithmetic. The division by a zero point size raises, and the \<^verbatim>\<open>except\<close> of
  \<^verbatim>\<open>execute_signal\<close> catches it.
\<close>

definition sl_points_block :: "SymbolInfo \<Rightarrow> rat \<Rightarrow> StopLossConfig \<Rightarrow> py_error + rat" where
  "sl_points_block si current_price sl_config =
     (if truthy (slc_pips sl_config) then Inr (of_int (or_else (slc_pips sl_config) 0))
      else if truthy (map_option fl (slc_price sl_config)) then
        (if fl (point si) = 0 then Inl ZeroDivisionError
         else Inr (fdiv \<bar>fsub (fl current_price) (fl (or_else (slc_price sl_config) 0))\<bar>
                     (fl (point si))))
      else Inr 0)"

text \<open>The request of \<^verbatim>\<open>execute_signal\<close> (lines 273 to 288).\<close>

definition deal_request ::
  "MT5 \<Rightarrow> TradingSignal \<Rightarrow> rat \<Rightarrow> rat \<Rightarrow> rat option \<Rightarrow> rat option \<Rightarrow> TradeRequest" where
  "deal_request m sg lot current_price slp tpp =
     \<lparr>rq_action = TRADE_ACTION_DEAL m,
      rq_symbol = symbol sg,
      rq_volume = Some lot,
      rq_type = Some (if side sg = BUY then ORDER_TYPE_BUY m else ORDER_TYPE_SELL m),
      rq_position = None,
      rq_price = Some current_price,
      rq_sl = Some (or_else slp 0),
      rq_tp = Some (or_else tpp 0),
      rq_deviation = Some 20,
      rq_magic = Some (magic_number sg),
      rq_comment = Some (comment sg),
      rq_type_time = Some (ORDER_TIME_GTC m),
      rq_type_filling = Some (ORDER_FILLING_IOC m)\<rparr>"

text \<open>
  \<^verbatim>\<open>TradingEngine.execute_signal\<close>. \<open>now\<close> and \<open>now'\<close> are the two clock readings of
  the idempotency guard. The result is the \<^verbatim>\<open>OrderResult\<close> and the engine after the
  call. An \<^verbatim>\<open>order_send\<close> without result makes \<^verbatim>\<open>result.retcode\<close> raise
  \<^verbatim>\<open>AttributeError\<close>, which the \<^verbatim>\<open>except\<close> turns into the result "Interner Fehler".
\<close>

definition execute_signal ::
  "Config \<Rightarrow> MT5 \<Rightarrow> TradingSignal \<Rightarrow> datetime \<Rightarrow> datetime \<Rightarrow> Engine \<Rightarrow> OrderResult \<times> Engine" where
  "execute_signal cfg m sg now now' st =
     (case validate_idempotency (idempotency_key sg) now now' (idempotency_cache st) of
        (admitted, cache') \<Rightarrow>
          let st1 = st\<lparr>idempotency_cache := cache'\<rparr> in
          if \<not> admitted then (failure KeyAlreadyUsed, st1)
          else
            let st2 = st1\<lparr>calls := calls st1 @ [Subscribe (symbol sg)]\<rparr> in
            if \<not> subscribe_symbol m (symbol sg) then
              (failure (SymbolNotAvailable (symbol sg)), st2)
            else
              (case get_symbol_info m (symbol sg) of
                 None \<Rightarrow> (failure (SymbolInfoNotAvailable (symbol sg)), st2)
               | Some si \<Rightarrow>
                   (case symbol_info_tick m (symbol sg) of
                      None \<Rightarrow> (failure (PriceNotAvailable (symbol sg)), st2)
                    | Some tick \<Rightarrow>
                        let current_price = (if side sg = BUY then ask tick else bid tick) in
                        (case sl_points_block si current_price (sl sg) of
                           Inl e \<Rightarrow> (failure (InternalError e), st2)
                         | Inr sl_points \<Rightarrow>
                             let lot = calculate_lot_size cfg m (symbol sg) (risk sg) sl_points in
                             if \<not> truthy lot then (failure LotSizeNotComputed, st2)
                             else
                               (case calculate_sl_tp_prices cfg m (symbol sg) (side sg)
                                       current_price (sl sg) (tp sg) of
                                  (slp, tpp) \<Rightarrow>
                                    let request =
                                          deal_request m sg (or_else lot 0) current_price slp tpp;
                                        st3 = st2\<lparr>calls := calls st2 @ [OrderSend request]\<rparr>
                                    in (case order_send m request of
                                          None \<Rightarrow> (failure (InternalError AttributeError), st3)
                                        | Some res \<Rightarrow>
                                            if res_retcode res \<noteq> TRADE_RETCODE_DONE m then
                                              (failure (OrderFailed (res_comment res)), st3)
                                            else
                                              (\<lparr>success = True,
                                                order_id = Some (res_order res),
                                                position_id = Some (res_position res),
                                                executed_price = Some (res_price res),
                                                sl_price = slp,
                                                tp_price = tpp,
                                                lot_size = lot,
                                                error_message = None,
                                                server_time = Some (res_time res)\<rparr>, st3)))))))"

subsection \<open>Modifying and closing a position\<close>

text \<open>Python's \<^verbatim>\<open>str\<close> of an integer, for the comment of the closing order.\<close>

fun str_nat :: "nat \<Rightarrow> string" where
  "str_nat n = (if n < 10 then [char_of (48 + n)] else str_nat (n div 10) @ [char_of (48 + n mod 10)])"

definition str_int :: "int \<Rightarrow> string" where
  "str_int i = (if i < 0 then CHR ''-'' # str_nat (nat (- i)) else str_nat (nat i))"

text \<open>The request of \<^verbatim>\<open>modify_position\<close> (lines 360 to 366).\<close>

definition sltp_request :: "MT5 \<Rightarrow> int \<Rightarrow> Position \<Rightarrow> rat option \<Rightarrow> rat option \<Rightarrow> TradeRequest" where
  "sltp_request m ticket pos sl_arg tp_arg =
     \<lparr>rq_action = TRADE_ACTION_SLTP m,
      rq_symbol = pos_symbol pos,
      rq_volume = None,
      rq_type = None,
      rq_position = Some ticket,
      rq_price = None,
      rq_sl = Some (or_else sl_arg (pos_sl pos)),
      rq_tp = Some (or_else tp_arg (pos_tp pos)),
      rq_deviation = None,
      rq_magic = None,
      rq_comment = None,
      rq_type_time = None,
      rq_type_filling = None\<rparr>"

text \<open>
  \<^verbatim>\<open>TradingEngine.modify_position\<close>: the answer and the engine after the call. An
  \<^verbatim>\<open>order_send\<close> without result raises on \<^verbatim>\<open>result.retcode\<close>, and the \<^verbatim>\<open>except\<close>
  answers \<^verbatim>\<open>False\<close>.
\<close>

definition modify_position ::
  "MT5 \<Rightarrow> int \<Rightarrow> rat option \<Rightarrow> rat option \<Rightarrow> Engine \<Rightarrow> bool \<times> Engine" where
  "modify_position m ticket sl_arg tp_arg st =
     (case positions_get m ticket of
        [] \<Rightarrow> (False, st)
      | pos # _ \<Rightarrow>
          let request = sltp_request m ticket pos sl_arg tp_arg;
              st' = st\<lparr>calls := calls st @ [OrderSend request]\<rparr>
          in (case order_send m request of
                None \<Rightarrow> (False, st')
              | Some res \<Rightarrow> (res_retcode res = TRADE_RETCODE_DONE m, st')))"

text \<open>The counter-order of \<^verbatim>\<open>close_position\<close> (lines 384 to 400).\<close>

definition close_request :: "MT5 \<Rightarrow> int \<Rightarrow> Position \<Rightarrow> rat option \<Rightarrow> TradeRequest" where
  "close_request m ticket pos volume_arg =
     (let close_volume = or_else volume_arg (pos_volume pos)
      in \<lparr>rq_action = TRADE_ACTION_DEAL m,
          rq_symbol = pos_symbol pos,
          rq_volume = Some close_volume,
          rq_type = Some (if pos_type pos = POSITION_TYPE_BUY m then ORDER_TYPE_SELL m
                          else ORDER_TYPE_BUY m),
          rq_position = Some ticket,
          rq_price = None,
          rq_sl = None,
          rq_tp = None,
          rq_deviation = Some 20,
          rq_magic = Some (pos_magic pos),
          rq_comment = Some (''Close position '' @ str_int ticket),
          rq_type_time = Some (ORDER_TIME_GTC m),
          rq_type_filling = Some (ORDER_FILLING_IOC m)\<rparr>)"

text \<open>\<^verbatim>\<open>TradingEngine.close_position\<close>: the answer and the engine after the call.\<close>

definition close_position :: "MT5 \<Rightarrow> int \<Rightarrow> rat option \<Rightarrow> Engine \<Rightarrow> bool \<times> Engine" where
  "close_position m ticket volume_arg st =
     (case positions_get m ticket of
        [] \<Rightarrow> (False, st)
      | pos # _ \<Rightarrow>
          let request = close_request m ticket pos volume_arg;
              st' = st\<lparr>calls := calls st @ [OrderSend request]\<rparr>
          in (case order_send m request of
                None \<Rightarrow> (False, st')
              | Some res \<Rightarrow> (res_retcode res = TRADE_RETCODE_DONE m, st')))"

subsection \<open>Margin\<close>

text \<open>\<^verbatim>\<open>MarginInfo\<close> of \<^verbatim>\<open>app/mt5/account.py\<close>, without its two strings.\<close>

record MarginInfo =
  mi_margin_required :: rat
  mi_margin_mode :: int
  mi_margin_rate :: rat

text \<open>\<^verbatim>\<open>AccountManager.get_account_summary\<close> copies the account dictionary.\<close>

definition get_account_summary :: "MT5 \<Rightarrow> AccountInfo option" where
  "get_account_summary m = get_account_info m"

definition get_margin_info :: "MT5 \<Rightarrow> string \<Rightarrow> MarginInfo option" where
  "get_margin_info m smb =
     (case symbol_info m smb of
        None \<Rightarrow> None
      | Some raw \<Rightarrow>
          Some \<lparr>mi_margin_required = raw_margin_required raw,
                mi_margin_mode = raw_margin_mode raw,
                mi_margin_rate = raw_margin_rate raw\<rparr>)"

text \<open>
  \<^verbatim>\<open>AccountManager.calculate_margin_required\<close>, in double arithmetic. \<open>None\<close> is the
  source's \<^verbatim>\<open>return None\<close>, also for the exceptions it catches: the
  \<^verbatim>\<open>ZeroDivisionError\<close> of a zero leverage and the \<^verbatim>\<open>AttributeError\<close> of a missing
  symbol. The leverage is an integer and is converted to a double for the division. The
  price argument is not read.
\<close>

definition calculate_margin_required :: "MT5 \<Rightarrow> string \<Rightarrow> rat \<Rightarrow> rat \<Rightarrow> rat option" where
  "calculate_margin_required m smb volume a_price =
     (case get_margin_info m smb of
        None \<Rightarrow> None
      | Some margin_info \<Rightarrow>
          if mi_margin_mode margin_info = SYMBOL_CALC_MODE_FOREX m then
            (case get_account_summary m of
               None \<Rightarrow> None
             | Some account_info \<Rightarrow>
                 (case symbol_info m smb of
                    None \<Rightarrow> None
                  | Some raw \<Rightarrow>
                      if leverage account_info = 0 then None
                      else Some (fdiv (fmul (fl (raw_trade_contract_size raw)) (fl volume))
                                   (fl (of_int (leverage account_info))))))
          else if mi_margin_mode margin_info = SYMBOL_CALC_MODE_FUTURES m then
            (case symbol_info m smb of
               None \<Rightarrow> None
             | Some raw \<Rightarrow>
                 Some (fmul (fmul (fl (raw_trade_contract_size raw)) (fl volume))
                         (fl (mi_margin_rate margin_info))))
          else Some (fmul (fl (mi_margin_required margin_info)) (fl volume)))"

text \<open>
  \<^verbatim>\<open>AccountManager.check_margin_sufficient\<close>: the free margin, a double, is compared
  with the double that \<^verbatim>\<open>calculate_margin_required\<close> has computed.
\<close>

definition check_margin_sufficient :: "MT5 \<Rightarrow> string \<Rightarrow> rat \<Rightarrow> rat \<Rightarrow> bool" where
  "check_margin_sufficient m smb volume a_price =
     (case get_account_summary m of
        None \<Rightarrow> False
      | Some account_summary \<Rightarrow>
          (case calculate_margin_required m smb volume a_price of
             None \<Rightarrow> False
           | Some required_margin \<Rightarrow> fl (free_margin account_summary) \<ge> required_margin))"

subsection \<open>Sequences of calls\<close>

text \<open>
  The three operations of the engine that a caller can invoke, with their arguments
  and, for \<^verbatim>\<open>execute_signal\<close>, the two clock readings of the call.
\<close>

datatype engine_call =
    Execute Config MT5 TradingSignal datetime datetime
  | Modify MT5 int "rat option" "rat option"
  | Close MT5 int "rat option"

fun run_call :: "engine_call \<Rightarrow> Engine \<Rightarrow> Engine" where
  "run_call (Execute cfg m sg now now') st = snd (execute_signal cfg m sg now now' st)"
| "run_call (Modify m ticket sl_arg tp_arg) st = snd (modify_position m ticket sl_arg tp_arg st)"
| "run_call (Close m ticket volume_arg) st = snd (close_position m ticket volume_arg st)"

text \<open>The engine after a list of calls, made one after the other from the left.\<close>

definition run_calls :: "engine_call list \<Rightarrow> Engine \<Rightarrow> Engine" where
  "run_calls cs st = fold run_call cs st"

text \<open>A call whose sweep of the idempotency cache reads the clock no later than \<open>t\<close>.\<close>

fun swept_by :: "datetime \<Rightarrow> engine_call \<Rightarrow> bool" where
  "swept_by t (Execute cfg m sg now now') = (now' \<le> t)"
| "swept_by t (Modify m ticket sl_arg tp_arg) = True"
| "swept_by t (Close m ticket volume_arg) = True"

subsection \<open>The specification's formulas\<close>

text \<open>
  The sizing operation in the words of the specification (section 4.2): the fixed
  amount if present, else the percentage of the balance; capped; divided by the loss
  per lot; clamped to the lot limits; rounded to the nearest multiple of the lot step,
  a tie going up.
\<close>

definition spec_round_half_up :: "rat \<Rightarrow> int" where
  "spec_round_half_up x = \<lfloor>x + 1 / 2\<rfloor>"

definition spec_lot_size :: "Config \<Rightarrow> SymbolInfo \<Rightarrow> RiskConfig \<Rightarrow> AccountInfo \<Rightarrow> rat \<Rightarrow> rat" where
  "spec_lot_size cfg si rc acc stop_points =
     (let risk_amount0 =
            (case fixed_amount rc of
               Some a \<Rightarrow> a
             | None \<Rightarrow> balance acc * percent rc / 100);
          risk_amount = min risk_amount0 (balance acc * max_risk_per_trade rc / 100);
          lot = risk_amount / (stop_points * point si * tick_value si * contract_size si);
          clamped = min (max lot (MIN_LOT_SIZE cfg)) (MAX_LOT_SIZE cfg)
      in of_int (spec_round_half_up (clamped / LOT_STEP cfg)) * LOT_STEP cfg)"

text \<open>
  The target in the words of the specification (section 4.3): the explicit price,
  else the pip distance, else the risk:reward ratio applied to the resolved stop.
\<close>

definition spec_target ::
  "SymbolInfo \<Rightarrow> OrderSide \<Rightarrow> rat \<Rightarrow> TakeProfitConfig \<Rightarrow> rat option \<Rightarrow> rat option" where
  "spec_target si sd entry_price tp_config stop =
     (case tpc_price tp_config of
        Some p \<Rightarrow> Some p
      | None \<Rightarrow>
          (case tpc_pips tp_config of
             Some n \<Rightarrow>
               Some (if sd = BUY then entry_price + of_int n * point si
                     else entry_price - of_int n * point si)
           | None \<Rightarrow>
               (case tpc_risk_reward_ratio tp_config of
                  None \<Rightarrow> None
                | Some r \<Rightarrow>
                    (case stop of
                       None \<Rightarrow> None
                     | Some s \<Rightarrow>
                         Some (if sd = BUY then entry_price + \<bar>entry_price - s\<bar> * r
                               else entry_price - \<bar>entry_price - s\<bar> * r)))))"

text \<open>
  The required margin and the verdict of the margin check in the words of the
  specification (section 4.4), in exact arithmetic.
\<close>

definition spec_required_margin :: "MT5 \<Rightarrow> RawSymbolInfo \<Rightarrow> AccountInfo \<Rightarrow> rat \<Rightarrow> rat" where
  "spec_required_margin m raw acc lot =
     (if raw_margin_mode raw = SYMBOL_CALC_MODE_FOREX m then
        raw_trade_contract_size raw * lot / of_int (leverage acc)
      else if raw_margin_mode raw = SYMBOL_CALC_MODE_FUTURES m then
        raw_trade_contract_size raw * lot * raw_margin_rate raw
      else raw_margin_required raw * lot)"

definition spec_margin_sufficient :: "MT5 \<Rightarrow> RawSymbolInfo \<Rightarrow> AccountInfo \<Rightarrow> rat \<Rightarrow> bool" where
  "spec_margin_sufficient m raw acc lot = (free_margin acc \<ge> spec_required_margin m raw acc lot)"

subsection \<open>Worked inputs\<close>

text \<open>
  The inputs of the specification's examples (section 8): EURUSD with point 0.00001,
  tick value 1 and contract size 100000 in forex margin mode; an account with balance
  10000, leverage 100 and free margin 4000; the default lot limits 0.01 to 100, lot
  step 0.01 and a stop level of 5 points; a broker that accepts every order.
\<close>

definition ex_symbol :: SymbolInfo where
  "ex_symbol =
     \<lparr>name = ''EURUSD'', digits = 5, point = 1 / 100000, tick_value = 1,
      contract_size = 100000, margin_required = 0, spread = 20, is_trade_allowed = True\<rparr>"

definition ex_account :: AccountInfo where
  "ex_account =
     \<lparr>balance = 10000, equity = 10000, margin = 0, free_margin = 4000, margin_level = 0,
      leverage = 100, profit = 0\<rparr>"

definition ex_raw :: RawSymbolInfo where
  "ex_raw =
     \<lparr>raw_margin_required = 1000, raw_margin_mode = 0, raw_margin_rate = 1 / 10,
      raw_trade_contract_size = 100000\<rparr>"

definition ex_fill :: SendResult where
  "ex_fill =
     \<lparr>res_retcode = 10009, res_order = 1000001, res_position = 1000001,
      res_price = 11 / 10, res_comment = ''Request executed'', res_time = 1700000000\<rparr>"

definition ex_position :: Position where
  "ex_position =
     \<lparr>pos_ticket = 1000001, pos_symbol = ''EURUSD'', pos_type = 0, pos_volume = 5,
      pos_sl = 10998 / 10000, pos_tp = 11004 / 10000, pos_magic = 0\<rparr>"

definition ex_mt5 :: MT5 where
  "ex_mt5 =
     \<lparr>TRADE_ACTION_DEAL = 1, TRADE_ACTION_SLTP = 6, ORDER_TYPE_BUY = 0, ORDER_TYPE_SELL = 1,
      ORDER_TIME_GTC = 0, ORDER_FILLING_IOC = 1, TRADE_RETCODE_DONE = 10009,
      POSITION_TYPE_BUY = 0, SYMBOL_CALC_MODE_FOREX = 0, SYMBOL_CALC_MODE_FUTURES = 1,
      subscribe_symbol = (\<lambda>s. True),
      get_symbol_info = (\<lambda>s. if s = ''EURUSD'' then Some ex_symbol else None),
      get_account_info = Some ex_account,
      symbol_info_tick = (\<lambda>s. Some \<lparr>bid = 10999 / 10000, ask = 11 / 10\<rparr>),
      symbol_info = (\<lambda>s. if s = ''EURUSD'' then Some ex_raw else None),
      positions_get = (\<lambda>t. if t = 1000001 then [ex_position] else []),
      order_send = (\<lambda>r. Some ex_fill)\<rparr>"

definition ex_cfg :: Config where
  "ex_cfg = \<lparr>MIN_LOT_SIZE = 1 / 100, MAX_LOT_SIZE = 100, LOT_STEP = 1 / 100, STOP_LEVEL_PIPS = 5\<rparr>"

definition ex_risk :: RiskConfig where
  "ex_risk = \<lparr>percent = 1, fixed_amount = None, max_risk_per_trade = 2\<rparr>"

definition ex_sl :: StopLossConfig where
  "ex_sl = \<lparr>slc_pips = Some 20, slc_price = None, slc_atr_multiplier = None\<rparr>"

definition ex_tp :: TakeProfitConfig where
  "ex_tp = \<lparr>tpc_pips = Some 40, tpc_price = None, tpc_risk_reward_ratio = None\<rparr>"

definition ex_signal :: TradingSignal where
  "ex_signal =
     \<lparr>strategy = ''test_strategy'', symbol = ''EURUSD'', side = BUY, order_type = MARKET,
      risk = ex_risk, sl = ex_sl, tp = ex_tp, price = None, comment = ''test_signal'',
      idempotency_key = ''k1'', magic_number = 0\<rparr>"

definition ex_engine :: Engine where
  "ex_engine = \<lparr>idempotency_cache = Map.empty, calls = []\<rparr>"

text \<open>
  A sizing input whose clamped lot size, 1.25, lies exactly between two multiples of the
  lot step 0.5: a fixed risk of 125 against a loss per lot of 100 * 0.25 * (1 * 4) = 100.
  Every number that enters the result is a binary fraction, so that no operation of it
  rounds.
\<close>

definition tie_cfg :: Config where
  "tie_cfg = \<lparr>MIN_LOT_SIZE = 1 / 100, MAX_LOT_SIZE = 100, LOT_STEP = 1 / 2, STOP_LEVEL_PIPS = 5\<rparr>"

definition tie_symbol :: SymbolInfo where
  "tie_symbol =
     \<lparr>name = ''IDX'', digits = 2, point = 1 / 4, tick_value = 1, contract_size = 4,
      margin_required = 0, spread = 1, is_trade_allowed = True\<rparr>"

definition tie_risk :: RiskConfig where
  "tie_risk = \<lparr>percent = 1, fixed_amount = Some 125, max_risk_per_trade = 2\<rparr>"

definition tie_mt5 :: MT5 where
  "tie_mt5 = ex_mt5\<lparr>get_symbol_info := (\<lambda>s. Some tie_symbol)\<rparr>"

text \<open>
  A stop that resolves to the price zero: a BUY at 1.0 with a stop 2 points of size 0.5
  below the entry, under a stop level of 5 points.
\<close>

definition zero_symbol :: SymbolInfo where
  "zero_symbol =
     \<lparr>name = ''IDX'', digits = 1, point = 1 / 2, tick_value = 1, contract_size = 1,
      margin_required = 0, spread = 1, is_trade_allowed = True\<rparr>"

definition zero_mt5 :: MT5 where
  "zero_mt5 = ex_mt5\<lparr>get_symbol_info := (\<lambda>s. Some zero_symbol)\<rparr>"

definition zero_sl :: StopLossConfig where
  "zero_sl = \<lparr>slc_pips = Some 2, slc_price = None, slc_atr_multiplier = None\<rparr>"

definition no_tp :: TakeProfitConfig where
  "no_tp = \<lparr>tpc_pips = None, tpc_price = None, tpc_risk_reward_ratio = None\<rparr>"

text \<open>
  Target specifications: a pip distance together with an explicit price, an explicit
  price alone, a risk:reward ratio alone; and a stop given as an explicit price 0.00002
  below the entry 1.1000.
\<close>

definition both_tp :: TakeProfitConfig where
  "both_tp = \<lparr>tpc_pips = Some 40, tpc_price = Some (6 / 5), tpc_risk_reward_ratio = None\<rparr>"

definition price_tp :: TakeProfitConfig where
  "price_tp = \<lparr>tpc_pips = None, tpc_price = Some (6 / 5), tpc_risk_reward_ratio = None\<rparr>"

definition ratio_tp :: TakeProfitConfig where
  "ratio_tp = \<lparr>tpc_pips = None, tpc_price = None, tpc_risk_reward_ratio = Some 2\<rparr>"

definition near_sl :: StopLossConfig where
  "near_sl = \<lparr>slc_pips = None, slc_price = Some (109998 / 100000), slc_atr_multiplier = None\<rparr>"

text \<open>A signal without any stop.\<close>

definition no_sl :: StopLossConfig where
  "no_sl = \<lparr>slc_pips = None, slc_price = None, slc_atr_multiplier = None\<rparr>"

text \<open>The example signal under another idempotency key.\<close>

definition other_signal :: TradingSignal where
  "other_signal = ex_signal\<lparr>idempotency_key := ''k2''\<rparr>"

text \<open>
  The example account with a free margin of exactly 10, the margin that 0.01 lots of the
  example symbol need at leverage 100, and with a free margin of exactly 70, the margin
  that 0.07 lots need.
\<close>

definition par_account :: AccountInfo where
  "par_account = ex_account\<lparr>free_margin := 10\<rparr>"

definition par_mt5 :: MT5 where
  "par_mt5 = ex_mt5\<lparr>get_account_info := Some par_account\<rparr>"

definition lim_account :: AccountInfo where
  "lim_account = ex_account\<lparr>free_margin := 70\<rparr>"

definition lim_mt5 :: MT5 where
  "lim_mt5 = ex_mt5\<lparr>get_account_info := Some lim_account\<rparr>"

subsection \<open>Results about double arithmetic\<close>

text \<open>
  Python's \<^verbatim>\<open>round\<close> answers an integer nearest to its argument, the even one of two
  that are equally near, and keeps the sign.
\<close>

lemma py_round_nearest: "\<bar>x - of_int (py_round x)\<bar> \<le> 1 / 2"
proof -
  have "0 \<le> x - of_int \<lfloor>x\<rfloor>" "x - of_int \<lfloor>x\<rfloor> < 1" by linarith+
  then show ?thesis
    unfolding py_round_def Let_def by (auto simp: abs_le_iff)
qed

lemma py_round_tie_even:
  assumes "\<bar>x - of_int (py_round x)\<bar> = 1 / 2"
  shows "even (py_round x)"
proof -
  have f: "0 \<le> x - of_int \<lfloor>x\<rfloor>" "x - of_int \<lfloor>x\<rfloor> < 1" by linarith+
  show ?thesis
  proof (cases "x - of_int \<lfloor>x\<rfloor> < 1 / 2")
    case True
    with assms f show ?thesis unfolding py_round_def Let_def by (simp split: if_splits)
  next
    case False
    note nlt = this
    show ?thesis
    proof (cases "1 / 2 < x - of_int \<lfloor>x\<rfloor>")
      case True
      with assms f nlt show ?thesis unfolding py_round_def Let_def
        by (simp split: if_splits)
    next
      case False
      with nlt show ?thesis unfolding py_round_def Let_def by simp
    qed
  qed
qed

lemma py_round_bounds: "\<lfloor>x\<rfloor> \<le> py_round x \<and> py_round x \<le> \<lfloor>x\<rfloor> + 1"
  by (simp add: py_round_def Let_def)

lemma py_round_nonneg: "0 \<le> x \<Longrightarrow> 0 \<le> py_round x"
proof -
  assume "0 \<le> x"
  then have "0 \<le> \<lfloor>x\<rfloor>" by simp
  with py_round_bounds [of x] show ?thesis by linarith
qed

lemma py_round_nonpos: "x \<le> 0 \<Longrightarrow> py_round x \<le> 0"
proof -
  assume x: "x \<le> 0"
  show ?thesis
  proof (cases "x = 0")
    case True
    then show ?thesis by (simp add: py_round_def)
  next
    case False
    with x have "x < 0" by simp
    then have "\<lfloor>x\<rfloor> < 0" by (simp add: floor_less_iff)
    with py_round_bounds [of x] show ?thesis by linarith
  qed
qed

lemma pow2_pos: "0 < pow2 e"
  by (simp add: pow2_def)

lemma fl_zero: "fl 0 = 0"
  by (simp add: fl_def)

lemma fl_nonneg: "0 \<le> x \<Longrightarrow> 0 \<le> fl x"
  unfolding fl_def Let_def
  by (simp add: py_round_nonneg pow2_pos less_imp_le)

lemma fl_nonpos: "x \<le> 0 \<Longrightarrow> fl x \<le> 0"
proof -
  assume x: "x \<le> 0"
  have "\<And>u::rat. 0 < u \<Longrightarrow> of_int (py_round (x / u)) * u \<le> 0"
    using x by (simp add: py_round_nonpos mult_le_0_iff divide_le_0_iff less_imp_le)
  then show ?thesis unfolding fl_def Let_def by (simp add: pow2_pos)
qed

lemma fmul_fl_nonpos: "x * y \<le> 0 \<Longrightarrow> fmul (fl x) (fl y) \<le> 0"
proof -
  assume "x * y \<le> 0"
  then have "(x \<le> 0 \<and> 0 \<le> y) \<or> (0 \<le> x \<and> y \<le> 0)" by (auto simp: mult_le_0_iff)
  then have "fl x * fl y \<le> 0"
    by (auto simp: mult_le_0_iff fl_nonneg fl_nonpos)
  then show ?thesis unfolding fmul_def by (rule fl_nonpos)
qed

lemma fmul_fl_nonneg: "0 \<le> x * y \<Longrightarrow> 0 \<le> fmul (fl x) (fl y)"
proof -
  assume "0 \<le> x * y"
  then have "(0 \<le> x \<and> 0 \<le> y) \<or> (x \<le> 0 \<and> y \<le> 0)" by (auto simp: zero_le_mult_iff)
  then have "0 \<le> fl x * fl y"
    by (auto simp: zero_le_mult_iff fl_nonneg fl_nonpos)
  then show ?thesis unfolding fmul_def by (rule fl_nonneg)
qed

lemma loss_per_lot_nonpos:
  assumes "pts * pt * (tv * cs) \<le> 0"
  shows "fmul (fmul (fl pts) (fl pt)) (fmul (fl tv) (fl cs)) \<le> 0"
proof -
  from assms have "(pts * pt \<le> 0 \<and> 0 \<le> tv * cs) \<or> (0 \<le> pts * pt \<and> tv * cs \<le> 0)"
    by (auto simp: mult_le_0_iff [of "pts * pt" "tv * cs"])
  then have "fmul (fl pts) (fl pt) * fmul (fl tv) (fl cs) \<le> 0"
    by (auto simp: mult_le_0_iff fmul_fl_nonneg fmul_fl_nonpos)
  then show ?thesis unfolding fmul_def [of "fl (fl pts * fl pt)"] fmul_def [of "fmul (fl pts) (fl pt)"]
    by (rule fl_nonpos)
qed

text \<open>
  \<open>exponent\<close> is the binary exponent, so that \<open>fl\<close> rounds on the grid of the doubles:
  its result is a multiple of the unit in the last place, at most half a unit away from
  the argument, and a double is its own rounding.
\<close>

lemma bit_length_bounds:
  "0 < n \<Longrightarrow> 2 ^ (bit_length n - 1) \<le> n \<and> n < 2 ^ bit_length n"
proof (induction n rule: bit_length.induct)
  case (1 n)
  show ?case
  proof (cases "n div 2 = 0")
    case True
    with 1(2) have n: "n = 1" by presburger
    have "bit_length 1 = 1" by (simp add: bit_length.simps [of 1] bit_length.simps [of 0])
    with n show ?thesis by simp
  next
    case False
    with 1(2) have pos: "0 < n div 2" by presburger
    from 1(1) [OF _ pos] 1(2)
    have ih: "2 ^ (bit_length (n div 2) - 1) \<le> n div 2" "n div 2 < 2 ^ bit_length (n div 2)"
      by simp_all
    have bl: "bit_length n = Suc (bit_length (n div 2))"
      using 1(2) by (simp add: bit_length.simps [of n])
    have bp: "0 < bit_length (n div 2)"
      using pos by (simp add: bit_length.simps [of "n div 2"])
    then have e: "(2::int) ^ bit_length (n div 2) = 2 * 2 ^ (bit_length (n div 2) - 1)"
      by (cases "bit_length (n div 2)") simp_all
    from ih(1) have "2 * 2 ^ (bit_length (n div 2) - 1) \<le> n" by presburger
    moreover from ih(2) have "n < 2 * 2 ^ bit_length (n div 2)" by presburger
    ultimately show ?thesis using bl e by simp
  qed
qed

lemma pow2_powi: "pow2 e = 2 powi e"
  by (simp add: pow2_def power_int_def inverse_eq_divide power_one_over)

lemma pow2_add: "pow2 (a + b) = pow2 a * pow2 b"
  by (simp add: pow2_powi power_int_add)

lemma pow2_mono: "a \<le> b \<Longrightarrow> pow2 a \<le> pow2 b"
  by (simp add: pow2_powi power_int_increasing)

lemma pow2_nat: "pow2 (int n) = 2 ^ n"
  by (simp add: pow2_def)


lemma exponent_bracket:
  assumes "x \<noteq> 0"
  shows "pow2 (exponent x) \<le> \<bar>x\<bar> \<and> \<bar>x\<bar> < pow2 (exponent x + 1)"
proof -
  obtain p q where pq: "quotient_of \<bar>x\<bar> = (p, q)" by (cases "quotient_of \<bar>x\<bar>")
  then have q: "0 < q" and x: "\<bar>x\<bar> = of_int p / of_int q"
    by (rule quotient_of_denom_pos, rule quotient_of_div)
  from assms have "0 < \<bar>x\<bar>" by simp
  with x q have p: "0 < p" by (simp add: zero_less_divide_iff)
  define lp lq where "lp = bit_length p" and "lq = bit_length q"
  define d where "d = int lp - int lq"
  from bit_length_bounds [OF p] have pb: "2 ^ (lp - 1) \<le> p" "p < 2 ^ lp"
    by (simp_all add: lp_def)
  from bit_length_bounds [OF q] have qb: "2 ^ (lq - 1) \<le> q" "q < 2 ^ lq"
    by (simp_all add: lq_def)
  have lp1: "0 < lp" using p by (simp add: lp_def bit_length.simps [of p])
  have lq1: "0 < lq" using q by (simp add: lq_def bit_length.simps [of q])
  have rp: "(2::rat) ^ (lp - 1) \<le> of_int p" "(of_int p :: rat) < 2 ^ lp"
    using pb by (metis of_int_le_iff of_int_numeral of_int_power, metis of_int_less_iff of_int_numeral of_int_power)
  have rq: "(2::rat) ^ (lq - 1) \<le> of_int q" "(of_int q :: rat) < 2 ^ lq"
    using qb by (metis of_int_le_iff of_int_numeral of_int_power, metis of_int_less_iff of_int_numeral of_int_power)
  have qpos: "(0::rat) < of_int q" using q by simp
  have lower: "pow2 (d - 1) \<le> \<bar>x\<bar>"
  proof -
    have "pow2 (d - 1) * of_int q \<le> pow2 (d - 1) * 2 ^ lq"
      using rq(2) pow2_pos [of "d - 1"] by (simp add: less_imp_le)
    also have "\<dots> = pow2 (d - 1) * pow2 (int lq)" by (simp add: pow2_nat)
    also have "\<dots> = pow2 (int (lp - 1))"
      using lp1 by (simp add: pow2_add [symmetric] d_def of_nat_diff)
    also have "\<dots> \<le> of_int p" using rp(1) by (simp add: pow2_nat)
    finally show ?thesis using qpos by (simp add: x pos_le_divide_eq)
  qed
  have upper: "\<bar>x\<bar> < pow2 (d + 1)"
  proof -
    have "of_int p < (2::rat) ^ lp" by (rule rp(2))
    also have "\<dots> = pow2 (d + 1) * pow2 (int (lq - 1))"
      using lq1 by (simp add: pow2_add [symmetric] d_def of_nat_diff pow2_nat [symmetric] del: pow2_nat)
    also have "\<dots> \<le> pow2 (d + 1) * of_int q"
      using rq(1) pow2_pos [of "d + 1"] by (simp add: pow2_nat)
    finally show ?thesis using qpos by (simp add: x pos_divide_less_eq)
  qed
  have e: "exponent x = (if pow2 d \<le> \<bar>x\<bar> then d else d - 1)"
    by (simp add: exponent_def pq d_def lp_def lq_def Let_def)
  show ?thesis
  proof (cases "pow2 d \<le> \<bar>x\<bar>")
    case True
    with e upper show ?thesis by simp
  next
    case False
    with e lower show ?thesis by simp
  qed
qed


lemma pow2_less_cancel: "pow2 a < pow2 b \<Longrightarrow> a < b"
  using pow2_mono [of b a] by (cases "a < b") simp_all

lemma exponent_le:
  assumes "y \<noteq> 0" and "\<bar>y\<bar> < pow2 (b + 1)"
  shows "exponent y \<le> b"
proof -
  from exponent_bracket [OF assms(1)] assms(2) have "pow2 (exponent y) < pow2 (b + 1)" by simp
  from pow2_less_cancel [OF this] show ?thesis by simp
qed

lemma exponent_ge:
  assumes "y \<noteq> 0" and "pow2 a \<le> \<bar>y\<bar>"
  shows "a \<le> exponent y"
proof -
  from exponent_bracket [OF assms(1)] assms(2) have "pow2 a < pow2 (exponent y + 1)" by simp
  from pow2_less_cancel [OF this] show ?thesis by simp
qed

lemma py_round_of_int: "py_round (of_int n) = n"
  by (simp add: py_round_def)

lemma fl_grid: "fl x = of_int (py_round (x / pow2 (max (exponent x) (- 1022) - 52)))
    * pow2 (max (exponent x) (- 1022) - 52)"
  by (simp add: fl_def Let_def py_round_def)

lemma fl_nearest: "\<bar>x - fl x\<bar> \<le> pow2 (max (exponent x) (- 1022) - 52) / 2"
proof -
  define u where "u = pow2 (max (exponent x) (- 1022) - 52)"
  have u: "0 < u" by (simp add: u_def pow2_pos)
  have "x - fl x = (x / u - of_int (py_round (x / u))) * u"
    using u by (simp add: fl_grid u_def [symmetric] left_diff_distrib)
  then have "\<bar>x - fl x\<bar> = \<bar>x / u - of_int (py_round (x / u))\<bar> * u"
    using u by (simp add: abs_mult)
  also have "\<dots> \<le> 1 / 2 * u"
    using py_round_nearest [of "x / u"] u by (simp add: mult_right_mono)
  finally show ?thesis by (simp add: u_def)
qed


lemma py_round_abs_le:
  assumes "\<bar>z\<bar> < of_int n"
  shows "\<bar>py_round z\<bar> \<le> n"
proof -
  from assms have "z < of_int n" "- of_int n < z" by (simp_all add: abs_less_iff)
  then have "\<lfloor>z\<rfloor> < n" "- n \<le> \<lfloor>z\<rfloor>" by (simp_all add: floor_less_iff le_floor_iff less_imp_le)
  with py_round_bounds [of z] show ?thesis by linarith
qed

lemma fl_idempotent: "fl (fl x) = fl x"
proof (cases "fl x = 0")
  case True
  then show ?thesis by (simp add: fl_zero)
next
  case False
  define e where "e = max (exponent x) (- 1022)"
  define u where "u = pow2 (e - 52)"
  define k where "k = py_round (x / u)"
  define y where "y = fl x"
  have y: "y = of_int k * u" by (simp add: y_def k_def u_def e_def fl_grid)
  have u: "0 < u" by (simp add: u_def pow2_pos)
  from False have y0: "y \<noteq> 0" by (simp add: y_def)
  with y have k0: "k \<noteq> 0" by auto
  from False have x0: "x \<noteq> 0" by (auto simp: fl_zero)
  have p53: "pow2 (e + 1) = 2 ^ 53 * u"
  proof -
    have "pow2 (e + 1) = pow2 (53 + (e - 52))" by (rule arg_cong [where f = pow2]) simp
    also have "\<dots> = pow2 53 * pow2 (e - 52)" by (rule pow2_add)
    finally show ?thesis by (simp add: u_def pow2_def)
  qed
  have "\<bar>x\<bar> < pow2 (exponent x + 1)" using exponent_bracket [OF x0] by simp
  also have "\<dots> \<le> pow2 (e + 1)" by (rule pow2_mono) (simp add: e_def)
  finally have "\<bar>x\<bar> < 2 ^ 53 * u" by (simp add: p53)
  then have "\<bar>x / u\<bar> < of_int (2 ^ 53)" using u by (simp add: pos_divide_less_eq)
  then have kb: "\<bar>k\<bar> \<le> 2 ^ 53" unfolding k_def by (rule py_round_abs_le)
  have ay: "\<bar>y\<bar> = of_int \<bar>k\<bar> * u" using u by (simp add: y abs_mult)
  define e' where "e' = max (exponent y) (- 1022)"
  define u' where "u' = pow2 (e' - 52)"
  have u': "0 < u'" by (simp add: u'_def pow2_pos)
  have "\<exists>n. y = of_int n * u'"
  proof (cases "e' \<le> e")
    case True
    have "u = pow2 ((e - e') + (e' - 52))" unfolding u_def by (rule arg_cong [where f = pow2]) simp
    also have "\<dots> = pow2 (e - e') * u'" by (simp only: pow2_add u'_def)
    also have "pow2 (e - e') = of_int (2 ^ nat (e - e'))" using True by (simp add: pow2_def)
    finally have "y = of_int (k * 2 ^ nat (e - e')) * u'" by (simp add: y)
    then show ?thesis ..
  next
    case False
    then have gt: "e < e'" by simp
    have "e \<ge> - 1022" by (simp add: e_def)
    with gt have ey: "e' = exponent y" by (simp add: e'_def max_def split: if_splits)
    have "\<bar>y\<bar> \<le> 2 ^ 53 * u"
      using kb u by (simp add: ay mult_right_mono)
    also have "\<dots> < pow2 (e + 1 + 1)"
    proof -
      have "pow2 (e + 1 + 1) = pow2 (e + 1) * pow2 1" by (rule pow2_add)
      also have "pow2 1 = 2" by (simp add: pow2_def)
      finally have "pow2 (e + 1 + 1) = 2 * (2 ^ 53 * u)" by (simp only: p53 mult.commute)
      with u show ?thesis by simp
    qed
    finally have "exponent y \<le> e + 1" by (rule exponent_le [OF y0])
    with gt ey have e1: "e' = e + 1" by simp
    from exponent_bracket [OF y0] ey e1 have "pow2 (e + 1) \<le> \<bar>y\<bar>" by simp
    then have "(2::rat) ^ 53 \<le> of_int \<bar>k\<bar>" using u by (simp add: p53 ay)
    then have "(2::int) ^ 53 \<le> \<bar>k\<bar>"
      by (metis of_int_le_iff of_int_numeral of_int_power)
    with kb have "\<bar>k\<bar> = 2 ^ 53" by simp
    then have "even k" by (metis even_abs_add_iff even_add even_numeral even_power zero_less_numeral)
    then obtain h where h: "k = 2 * h" by (auto elim: evenE)
    have "u' = pow2 (1 + (e - 52))" unfolding u'_def e1 by (rule arg_cong [where f = pow2]) simp
    also have "\<dots> = 2 * u" by (simp only: pow2_add u_def) (simp add: pow2_def)
    finally have "y = of_int h * u'" by (simp add: y h)
    then show ?thesis ..
  qed
  then obtain n where n: "y = of_int n * u'" ..
  have "fl y = of_int (py_round (y / u')) * u'" by (simp add: fl_grid u'_def e'_def)
  also have "y / u' = of_int n" using u' by (simp add: n)
  finally have "fl y = y" by (simp add: py_round_of_int n)
  then show ?thesis by (simp add: y_def)
qed

subsection \<open>Results about the idempotency guard\<close>

lemma stored_key_rejected:
  "key \<noteq> [] \<Longrightarrow> cache key = Some t \<Longrightarrow> validate_idempotency key now now' cache = (False, cache)"
  by (simp add: validate_idempotency_def)

lemma admitted_key_stored:
  "key \<noteq> [] \<Longrightarrow> cache key = None \<Longrightarrow> now' - now < idempotency_ttl \<Longrightarrow>
   snd (validate_idempotency key now now' cache) key = Some now"
  by (simp add: validate_idempotency_def Let_def)

lemma admitted_iff:
  "fst (validate_idempotency key now now' cache) = (key = [] \<or> cache key = None)"
  by (simp add: validate_idempotency_def Let_def)

lemma live_record_survives:
  assumes "cache key = Some t" and "now' - t < idempotency_ttl"
  shows "snd (validate_idempotency key' now now' cache) key = Some t"
  using assms by (auto simp: validate_idempotency_def Let_def)

lemma execute_signal_cache:
  "idempotency_cache (snd (execute_signal cfg m sg now now' st)) =
     snd (validate_idempotency (idempotency_key sg) now now' (idempotency_cache st))"
  by (simp add: execute_signal_def Let_def split: prod.splits option.splits sum.splits)

lemma modify_position_cache:
  "idempotency_cache (snd (modify_position m ticket sl_arg tp_arg st)) = idempotency_cache st"
  by (simp add: modify_position_def Let_def split: list.splits option.splits)

lemma close_position_cache:
  "idempotency_cache (snd (close_position m ticket volume_arg st)) = idempotency_cache st"
  by (simp add: close_position_def Let_def split: list.splits option.splits)

lemma execute_signal_duplicate:
  "idempotency_key sg \<noteq> [] \<Longrightarrow> idempotency_cache st (idempotency_key sg) = Some t \<Longrightarrow>
   execute_signal cfg m sg now now' st = (failure KeyAlreadyUsed, st)"
  by (simp add: execute_signal_def stored_key_rejected)

lemma run_call_keeps_live_record:
  assumes "idempotency_cache st key = Some t" and "swept_by t2 c" and "t2 - t < idempotency_ttl"
  shows "idempotency_cache (run_call c st) key = Some t"
proof (cases c)
  case (Execute cfg m sg now now')
  with assms(2) have "now' - t < idempotency_ttl" using assms(3) by simp
  with assms(1) Execute show ?thesis
    by (simp add: execute_signal_cache live_record_survives)
next
  case (Modify m ticket sl_arg tp_arg)
  with assms(1) show ?thesis by (simp add: modify_position_cache)
next
  case (Close m ticket volume_arg)
  with assms(1) show ?thesis by (simp add: close_position_cache)
qed

lemma run_calls_keep_live_record:
  assumes "list_all (swept_by t2) cs" and "t2 - t < idempotency_ttl"
  shows "idempotency_cache st key = Some t \<Longrightarrow> idempotency_cache (run_calls cs st) key = Some t"
  using assms(1)
proof (induction cs arbitrary: st)
  case Nil
  then show ?case by (simp add: run_calls_def)
next
  case (Cons c cs)
  from Cons.prems have c: "swept_by t2 c" and cs: "list_all (swept_by t2) cs" by simp_all
  from run_call_keeps_live_record [OF Cons.prems(1) c assms(2)]
  have "idempotency_cache (run_call c st) key = Some t" .
  from Cons.IH [OF this cs] show ?case by (simp add: run_calls_def)
qed

text \<open>
  C9. For every state of the idempotency guard, an admit call with the empty key
  answers admitted and leaves the record set as it was: nothing is inserted, removed
  or changed.
\<close>

theorem empty_key_admits_without_recording:
  "validate_idempotency [] now now' cache = (True, cache)"
  by (simp add: validate_idempotency_def)

text \<open>
  C2, as the code has it. Let the guard admit the first of two \<^verbatim>\<open>execute_signal\<close> calls
  with the same non-empty key, stamping the record with the clock reading \<open>t1\<close>, and let
  any calls of the engine be made in between. If the second call is made at a time
  \<open>t2\<close> at which the record is younger than the retention window, \<open>t2 - t1 < 3600\<close>
  seconds, and the sweeps of the first call and of the calls in between have read the
  clock no later than \<open>t2\<close>, then the record is still stored with its stamp and the
  second call answers "Idempotency-Key bereits verwendet" and leaves the engine as it
  found it: no cache change and no broker call. Configuration, broker and the rest of
  the signal are arbitrary in every call, so the outcome of the first submission does
  not matter.
\<close>

theorem duplicate_key_rejected:
  assumes key: "idempotency_key sg1 = key" "idempotency_key sg2 = key" "key \<noteq> []"
    and admitted: "fst (validate_idempotency key t1 t1' (idempotency_cache st))"
    and first: "execute_signal cfg1 m1 sg1 t1 t1' st = (r1, st1)"
    and clock: "t1' \<le> t2" "list_all (swept_by t2) between"
    and unexpired: "t2 - t1 < idempotency_ttl"
  shows "execute_signal cfg2 m2 sg2 t2 t2' (run_calls between st1)
           = (failure KeyAlreadyUsed, run_calls between st1) \<and>
         idempotency_cache (run_calls between st1) key = Some t1"
proof -
  from admitted key(3) have absent: "idempotency_cache st key = None"
    by (simp add: admitted_iff)
  from clock(1) unexpired have sweep: "t1' - t1 < idempotency_ttl" by simp
  have "idempotency_cache st1 = snd (validate_idempotency key t1 t1' (idempotency_cache st))"
    using execute_signal_cache [of cfg1 m1 sg1 t1 t1' st] first key(1) by simp
  then have "idempotency_cache st1 key = Some t1"
    using admitted_key_stored [of key "idempotency_cache st" t1' t1] key(3) absent sweep by simp
  from run_calls_keep_live_record [OF clock(2) unexpired this]
  have stored: "idempotency_cache (run_calls between st1) key = Some t1" .
  then show ?thesis
    using execute_signal_duplicate [of sg2 "run_calls between st1" t1 cfg2 m2 t2 t2'] key by simp
qed

text \<open>
  The hypotheses hold for the example signal sent at time 0 to a broker that fills the
  order, followed by a signal under another key and a modification at 3599 seconds,
  and sent again one microsecond before the hour to a broker that gives no answer.
\<close>

theorem duplicate_key_rejected_witness:
  "idempotency_key ex_signal = ''k1'' \<and>
   fst (validate_idempotency ''k1'' 0 0 (idempotency_cache ex_engine)) \<and>
   list_all (swept_by 3599999999)
     [Execute ex_cfg ex_mt5 other_signal 3599000000 3599000000, Modify ex_mt5 1000001 None None] \<and>
   (3599999999::int) - 0 < idempotency_ttl \<and>
   execute_signal ex_cfg (ex_mt5\<lparr>order_send := (\<lambda>r. None)\<rparr>) ex_signal 3599999999 3599999999
       (run_calls
          [Execute ex_cfg ex_mt5 other_signal 3599000000 3599000000, Modify ex_mt5 1000001 None None]
          (snd (execute_signal ex_cfg ex_mt5 ex_signal 0 0 ex_engine)))
     = (failure KeyAlreadyUsed,
        run_calls
          [Execute ex_cfg ex_mt5 other_signal 3599000000 3599000000, Modify ex_mt5 1000001 None None]
          (snd (execute_signal ex_cfg ex_mt5 ex_signal 0 0 ex_engine)))"
proof -
  have k: "idempotency_key ex_signal = ''k1''" by (simp add: ex_signal_def)
  have ne: "''k1'' \<noteq> []" by simp
  have adm: "fst (validate_idempotency ''k1'' 0 0 (idempotency_cache ex_engine))"
    by (simp add: validate_idempotency_def ex_engine_def Let_def)
  have fi: "execute_signal ex_cfg ex_mt5 ex_signal 0 0 ex_engine =
      (fst (execute_signal ex_cfg ex_mt5 ex_signal 0 0 ex_engine),
       snd (execute_signal ex_cfg ex_mt5 ex_signal 0 0 ex_engine))" by simp
  have c1: "(0::int) \<le> 3599999999" by simp
  have c2: "list_all (swept_by 3599999999)
     [Execute ex_cfg ex_mt5 other_signal 3599000000 3599000000, Modify ex_mt5 1000001 None None]"
    by simp
  have un: "(3599999999::int) - 0 < idempotency_ttl" by (simp add: idempotency_ttl_def)
  from duplicate_key_rejected [OF k k ne adm fi c1 c2 un] k adm c2 un show ?thesis by simp
qed

text \<open>
  At an age of exactly the retention window the claim fails, since the sweep keeps only
  the records with a stamp above the cutoff: the example signal is admitted at time 0,
  another key is admitted at 3600 seconds and its sweep drops the record of the first,
  and the example signal, sent again at 3600 seconds, is admitted and its order sent a
  second time.
\<close>

theorem duplicate_key_counterexample:
  "(3600000000::int) - 0 \<le> idempotency_ttl \<and>
   idempotency_cache (snd (execute_signal ex_cfg ex_mt5 ex_signal 0 0 ex_engine)) ''k1'' = Some 0 \<and>
   idempotency_cache
     (run_calls [Execute ex_cfg ex_mt5 other_signal 3600000000 3600000000]
        (snd (execute_signal ex_cfg ex_mt5 ex_signal 0 0 ex_engine))) ''k1'' = None \<and>
   success
     (fst (execute_signal ex_cfg ex_mt5 ex_signal 3600000000 3600000000
        (run_calls [Execute ex_cfg ex_mt5 other_signal 3600000000 3600000000]
           (snd (execute_signal ex_cfg ex_mt5 ex_signal 0 0 ex_engine))))) \<and>
   calls
     (snd (execute_signal ex_cfg ex_mt5 ex_signal 3600000000 3600000000
        (run_calls [Execute ex_cfg ex_mt5 other_signal 3600000000 3600000000]
           (snd (execute_signal ex_cfg ex_mt5 ex_signal 0 0 ex_engine)))))
     = [Subscribe ''EURUSD'',
        OrderSend (deal_request ex_mt5 ex_signal 5 (11 / 10) (Some (10998 / 10000))
                     (Some (11004 / 10000))),
        Subscribe ''EURUSD'',
        OrderSend (deal_request ex_mt5 other_signal 5 (11 / 10) (Some (10998 / 10000))
                     (Some (11004 / 10000))),
        Subscribe ''EURUSD'',
        OrderSend (deal_request ex_mt5 ex_signal 5 (11 / 10) (Some (10998 / 10000))
                     (Some (11004 / 10000)))]"
  by code_simp

text \<open>
  C3. A record older than the retention window should read as absent. The code tests
  membership before it sweeps: with the record of \<open>k1\<close> stamped 0 and the clock at 3601
  seconds, the call with \<open>k1\<close> is refused and the record keeps its old stamp, while a
  call with another key at the same instant sweeps that very record away.
\<close>

theorem expired_key_still_rejected:
  "validate_idempotency ''k1'' 3601000000 3601000000 [''k1'' \<mapsto> 0] = (False, [''k1'' \<mapsto> 0])
   \<and> (3601000000::int) - 0 > idempotency_ttl
   \<and> snd (validate_idempotency ''k2'' 3601000000 3601000000 [''k1'' \<mapsto> 0]) ''k1'' = None"
  by (simp add: validate_idempotency_def idempotency_ttl_def Let_def)

subsection \<open>Results about position sizing\<close>

lemma calculate_lot_size_nonpositive:
  "get_symbol_info m smb = Some si \<Longrightarrow>
   pts * point si * (tick_value si * contract_size si) \<le> 0 \<Longrightarrow>
   calculate_lot_size cfg m smb rc pts = None"
  by (simp add: calculate_lot_size_def Let_def loss_per_lot_nonpos split: option.splits)

text \<open>
  C4, as the code has it: in double arithmetic, every product and quotient being the
  double nearest to the exact one. For symbol and account data that are available, a
  loss per lot \<open>(stop_points * point) * (tick_value * contract_size)\<close> that is positive
  and a lot step that is not zero, the sizing operation returns \<open>k * lot_step\<close> where
  \<^item> the risk amount is the fixed amount if it is present and not zero, else
    \<open>balance * (percent / 100)\<close>, capped at \<open>balance * (max_risk_per_trade / 100)\<close>;
  \<^item> the lot is the risk amount over the loss per lot, raised to the minimum lot and
    then lowered to the maximum lot;
  \<^item> \<open>k\<close> is an integer nearest to the double \<open>lot / lot_step\<close>, and the even one when
    that double lies halfway between two integers (Python's \<^verbatim>\<open>round\<close>), not the upper
    one.
  With balance 10000, 1 percent, point 0.00001, tick value 1, contract size 100000, a
  stop of 20 points, limits 0.01 and 100 and step 0.01 the result is 5.
\<close>

theorem lot_size_formula:
  fixes cfg :: Config and m :: MT5 and smb :: string and rc :: RiskConfig and si :: SymbolInfo
    and acc :: AccountInfo and pts :: rat
  defines "bal \<equiv> fl (balance acc)"
  defines "risk_amount \<equiv>
      min (case fixed_amount rc of
             None \<Rightarrow> fmul bal (fdiv (fl (percent rc)) 100)
           | Some a \<Rightarrow> if fl a \<noteq> 0 then fl a else fmul bal (fdiv (fl (percent rc)) 100))
          (fmul bal (fdiv (fl (max_risk_per_trade rc)) 100))"
  defines "loss_per_lot \<equiv>
      fmul (fmul (fl pts) (fl (point si))) (fmul (fl (tick_value si)) (fl (contract_size si)))"
  defines "clamped \<equiv>
      min (max (fdiv risk_amount loss_per_lot) (fl (MIN_LOT_SIZE cfg))) (fl (MAX_LOT_SIZE cfg))"
  defines "steps \<equiv> fdiv clamped (fl (LOT_STEP cfg))"
  assumes "get_symbol_info m smb = Some si" and "get_account_info m = Some acc"
    and "0 < loss_per_lot" and "fl (LOT_STEP cfg) \<noteq> 0"
  shows "(\<exists>k. calculate_lot_size cfg m smb rc pts = Some (fmul (fl (of_int k)) (fl (LOT_STEP cfg))) \<and>
              \<bar>steps - of_int k\<bar> \<le> 1 / 2 \<and>
              (\<bar>steps - of_int k\<bar> = 1 / 2 \<longrightarrow> even k)) \<and>
         calculate_lot_size ex_cfg ex_mt5 ''EURUSD'' ex_risk 20 = Some 5"
proof -
  have val: "calculate_lot_size cfg m smb rc pts =
      Some (fmul (fl (of_int (py_round steps))) (fl (LOT_STEP cfg)))"
    using assms(6-9)
    by (simp add: calculate_lot_size_def Let_def not_le steps_def clamped_def loss_per_lot_def
        risk_amount_def bal_def split: option.split)
  have ex: "calculate_lot_size ex_cfg ex_mt5 ''EURUSD'' ex_risk 20 = Some 5"
    by code_simp
  from val py_round_nearest [of steps] py_round_tie_even [of steps] ex
  show ?thesis by blast
qed

text \<open>
  The hypotheses hold at the tie input, where the nearest even multiple is 2 * 0.5.
  Where the exact quotient is a tie but the double is not, the result goes with the
  double: under the default limits, 80 points and the example symbol and account, a
  risk of 0.9 percent gives 113 steps (the exact quotient is 112.5) and a risk of 0.7
  percent gives 87 steps (the exact quotient is 87.5).
\<close>

theorem lot_size_formula_witness:
  "get_symbol_info tie_mt5 ''IDX'' = Some tie_symbol \<and>
   get_account_info tie_mt5 = Some ex_account \<and>
   0 < fmul (fmul (fl 100) (fl (point tie_symbol)))
          (fmul (fl (tick_value tie_symbol)) (fl (contract_size tie_symbol))) \<and>
   fl (LOT_STEP tie_cfg) \<noteq> 0 \<and>
   calculate_lot_size tie_cfg tie_mt5 ''IDX'' tie_risk 100
     = Some (fmul (fl (of_int 2)) (fl (LOT_STEP tie_cfg))) \<and>
   calculate_lot_size ex_cfg ex_mt5 ''EURUSD'' (ex_risk\<lparr>percent := 9 / 10\<rparr>) 80
     = Some (fmul 113 (fl (1 / 100))) \<and>
   calculate_lot_size ex_cfg ex_mt5 ''EURUSD'' (ex_risk\<lparr>percent := 7 / 10\<rparr>) 80
     = Some (fmul 87 (fl (1 / 100)))"
proof -
  have h1: "get_symbol_info tie_mt5 ''IDX'' = Some tie_symbol"
    by (simp add: tie_mt5_def)
  have h2: "get_account_info tie_mt5 = Some ex_account"
    by (simp add: tie_mt5_def ex_mt5_def)
  have h3: "0 < fmul (fmul (fl 100) (fl (point tie_symbol)))
          (fmul (fl (tick_value tie_symbol)) (fl (contract_size tie_symbol)))"
    by code_simp
  have h4: "fl (LOT_STEP tie_cfg) \<noteq> 0"
    by code_simp
  have c: "calculate_lot_size tie_cfg tie_mt5 ''IDX'' tie_risk 100
      = Some (fmul (fl (of_int 2)) (fl (LOT_STEP tie_cfg)))"
    by code_simp
  have d: "calculate_lot_size ex_cfg ex_mt5 ''EURUSD'' (ex_risk\<lparr>percent := 9 / 10\<rparr>) 80
     = Some (fmul 113 (fl (1 / 100)))"
    by code_simp
  have e: "calculate_lot_size ex_cfg ex_mt5 ''EURUSD'' (ex_risk\<lparr>percent := 7 / 10\<rparr>) 80
     = Some (fmul 87 (fl (1 / 100)))"
    by code_simp
  from lot_size_formula [OF h1 h2 h3 h4, of tie_risk] c d e h1 h2 h3 h4 show ?thesis by simp
qed

text \<open>
  The claim as the specification words it, with ties rounded up, fails at the tie
  input, where no operation rounds: the lot 1.25 is rounded to 1.0 by the code and to
  1.5 by the specification.
\<close>

theorem lot_size_counterexample:
  "calculate_lot_size tie_cfg tie_mt5 ''IDX'' tie_risk 100 = Some 1 \<and>
   spec_lot_size tie_cfg tie_symbol tie_risk ex_account 100 = 3 / 2"
  by code_simp

subsection \<open>Results about stop and target prices\<close>

lemma calculate_sl_tp_prices_blocks:
  assumes "get_symbol_info m smb = Some si"
  shows "calculate_sl_tp_prices cfg m smb sd e slc tpc =
    (min_distance_sl sd e (of_int (STOP_LEVEL_PIPS cfg) * point si) (stop_loss_block si sd e slc),
     min_distance_tp sd e (of_int (STOP_LEVEL_PIPS cfg) * point si)
       (take_profit_block si sd e tpc (stop_loss_block si sd e slc)))"
  using assms by (simp add: calculate_sl_tp_prices_def Let_def)

text \<open>
  C5, as the code has it. With the symbol data available, the target is taken from the
  first of these sources that is present and not zero, and then passed through the
  minimum-distance check:
  \<^item> the pip distance, added to the entry on BUY and subtracted on SELL, whether an
    explicit price is supplied as well or not;
  \<^item> else the explicit target price;
  \<^item> else, if a risk:reward ratio is present and not zero and the stop resolved to a
    price other than zero, the entry plus (BUY) or minus (SELL) the distance between
    entry and stop times the ratio;
  \<^item> else the target is unset.
\<close>

theorem target_precedence:
  fixes cfg :: Config and m :: MT5 and smb :: string and sd :: OrderSide and e :: rat
    and slc :: StopLossConfig and tpc :: TakeProfitConfig and si :: SymbolInfo
  defines "md \<equiv> of_int (STOP_LEVEL_PIPS cfg) * point si"
  defines "R \<equiv> calculate_sl_tp_prices cfg m smb sd e slc tpc"
  assumes "get_symbol_info m smb = Some si"
  shows
    "(tpc_pips tpc = Some n \<and> n \<noteq> 0 \<longrightarrow>
        snd R = min_distance_tp sd e md
          (Some (if sd = BUY then e + of_int n * point si else e - of_int n * point si))) \<and>
     (\<not> truthy (tpc_pips tpc) \<and> tpc_price tpc = Some p \<and> p \<noteq> 0 \<longrightarrow>
        snd R = min_distance_tp sd e md (Some p)) \<and>
     (\<not> truthy (tpc_pips tpc) \<and> \<not> truthy (tpc_price tpc) \<and>
      tpc_risk_reward_ratio tpc = Some r \<and> r \<noteq> 0 \<and>
      stop_loss_block si sd e slc = Some s \<and> s \<noteq> 0 \<longrightarrow>
        snd R = min_distance_tp sd e md
          (Some (if sd = BUY then e + \<bar>e - s\<bar> * r else e - \<bar>e - s\<bar> * r))) \<and>
     (\<not> truthy (tpc_pips tpc) \<and> \<not> truthy (tpc_price tpc) \<and>
      \<not> (truthy (tpc_risk_reward_ratio tpc) \<and> truthy (stop_loss_block si sd e slc)) \<longrightarrow>
        snd R = None)"
  unfolding R_def md_def calculate_sl_tp_prices_blocks [OF assms(3)]
  by (auto simp: take_profit_block_def truthy_def or_else_def min_distance_tp_def Let_def)

text \<open>
  The four cases at the entry 1.1000 of the example symbol: 40 pips together with the
  price 1.2000 give 1.1004; the price alone gives 1.2000; the ratio 2 on a SELL with a
  stop of 20 pips gives 1.0996; no source gives no target.
\<close>

theorem target_precedence_witness:
  "get_symbol_info ex_mt5 ''EURUSD'' = Some ex_symbol \<and>
   snd (calculate_sl_tp_prices ex_cfg ex_mt5 ''EURUSD'' BUY (11 / 10) ex_sl both_tp)
     = Some (11004 / 10000) \<and>
   snd (calculate_sl_tp_prices ex_cfg ex_mt5 ''EURUSD'' BUY (11 / 10) ex_sl price_tp)
     = Some (12000 / 10000) \<and>
   snd (calculate_sl_tp_prices ex_cfg ex_mt5 ''EURUSD'' SELL (11 / 10) ex_sl ratio_tp)
     = Some (10996 / 10000) \<and>
   snd (calculate_sl_tp_prices ex_cfg ex_mt5 ''EURUSD'' BUY (11 / 10) ex_sl no_tp) = None"
proof -
  have h: "get_symbol_info ex_mt5 ''EURUSD'' = Some ex_symbol"
    by (simp add: ex_mt5_def)
  have 1: "snd (calculate_sl_tp_prices ex_cfg ex_mt5 ''EURUSD'' BUY (11 / 10) ex_sl both_tp)
     = Some (11004 / 10000)"
    by code_simp
  have 2: "snd (calculate_sl_tp_prices ex_cfg ex_mt5 ''EURUSD'' BUY (11 / 10) ex_sl price_tp)
     = Some (12000 / 10000)"
    by code_simp
  have 3: "snd (calculate_sl_tp_prices ex_cfg ex_mt5 ''EURUSD'' SELL (11 / 10) ex_sl ratio_tp)
     = Some (10996 / 10000)"
    by code_simp
  have 4: "snd (calculate_sl_tp_prices ex_cfg ex_mt5 ''EURUSD'' BUY (11 / 10) ex_sl no_tp) = None"
    by code_simp
  from target_precedence [OF h, where tpc = both_tp and n = 40 and cfg = ex_cfg and sd = BUY
      and e = "11 / 10" and slc = ex_sl and p = "6 / 5" and r = 2 and s = 1]
    h 1 2 3 4
  show ?thesis by simp
qed


text \<open>
  The precedence of the specification, explicit price first, fails where both a price
  and a pip distance are supplied: the code answers 1.1004, the specification 1.2000.
\<close>

theorem target_precedence_counterexample:
  "snd (calculate_sl_tp_prices ex_cfg ex_mt5 ''EURUSD'' BUY (11 / 10) ex_sl both_tp)
     = Some (11004 / 10000) \<and>
   spec_target ex_symbol BUY (11 / 10) both_tp (stop_loss_block ex_symbol BUY (11 / 10) ex_sl)
     = Some (12000 / 10000)"
  by code_simp

text \<open>
  C6, as the code has it. With the symbol data available and
  \<open>min_distance = STOP_LEVEL_PIPS * point\<close>:
  \<^item> a resolved stop other than zero that is closer to the entry than the minimum
    distance is replaced by the price at exactly that distance, below the entry on BUY
    and above it on SELL; a resolved stop at or beyond the minimum distance is returned
    as it is;
  \<^item> the same holds for the target, above the entry on BUY and below it on SELL;
  \<^item> the returned stop is a function of the resolved stop alone and the returned target
    of the resolved target alone;
  \<^item> BUY at 1.1000 with the explicit stop 1.09998, a stop level of 5 and point 0.00001
    gives the stop 1.09995.
  A resolved price of exactly zero fails the truth test of the check and is returned
  as it is.
\<close>

theorem min_distance_enforced:
  fixes cfg :: Config and m :: MT5 and smb :: string and sd :: OrderSide and e :: rat
    and slc :: StopLossConfig and tpc :: TakeProfitConfig and si :: SymbolInfo
  defines "md \<equiv> of_int (STOP_LEVEL_PIPS cfg) * point si"
  defines "sl0 \<equiv> stop_loss_block si sd e slc"
  defines "tp0 \<equiv> take_profit_block si sd e tpc sl0"
  defines "R \<equiv> calculate_sl_tp_prices cfg m smb sd e slc tpc"
  assumes "get_symbol_info m smb = Some si"
  shows
    "(sl0 = Some p \<and> p \<noteq> 0 \<and> \<bar>e - p\<bar> < md \<longrightarrow>
        fst R = Some (if sd = BUY then e - md else e + md) \<and>
        \<bar>e - (if sd = BUY then e - md else e + md)\<bar> = md) \<and>
     (sl0 = Some p \<and> md \<le> \<bar>e - p\<bar> \<longrightarrow> fst R = Some p) \<and>
     (tp0 = Some q \<and> q \<noteq> 0 \<and> \<bar>e - q\<bar> < md \<longrightarrow>
        snd R = Some (if sd = BUY then e + md else e - md) \<and>
        \<bar>e - (if sd = BUY then e + md else e - md)\<bar> = md) \<and>
     (tp0 = Some q \<and> md \<le> \<bar>e - q\<bar> \<longrightarrow> snd R = Some q) \<and>
     fst R = min_distance_sl sd e md sl0 \<and>
     snd R = min_distance_tp sd e md tp0 \<and>
     fst (calculate_sl_tp_prices ex_cfg ex_mt5 ''EURUSD'' BUY (11000 / 10000) near_sl tpc)
       = Some (109995 / 100000)"
proof -
  have R: "R = (min_distance_sl sd e md sl0, min_distance_tp sd e md tp0)"
    unfolding R_def md_def sl0_def tp0_def by (rule calculate_sl_tp_prices_blocks [OF assms(5)])
  have ex: "fst (calculate_sl_tp_prices ex_cfg ex_mt5 ''EURUSD'' BUY (11000 / 10000) near_sl tpc)
       = Some (109995 / 100000)"
    by (simp add: calculate_sl_tp_prices_def ex_mt5_def Let_def stop_loss_block_def near_sl_def
        truthy_def min_distance_sl_def ex_cfg_def ex_symbol_def)
  have sl: "sl0 = Some p \<and> p \<noteq> 0 \<and> \<bar>e - p\<bar> < md \<longrightarrow>
        fst R = Some (if sd = BUY then e - md else e + md) \<and>
        \<bar>e - (if sd = BUY then e - md else e + md)\<bar> = md"
    unfolding R by (auto simp: min_distance_sl_def)
  have sl': "sl0 = Some p \<and> md \<le> \<bar>e - p\<bar> \<longrightarrow> fst R = Some p"
    unfolding R by (auto simp: min_distance_sl_def)
  have tp: "tp0 = Some q \<and> q \<noteq> 0 \<and> \<bar>e - q\<bar> < md \<longrightarrow>
        snd R = Some (if sd = BUY then e + md else e - md) \<and>
        \<bar>e - (if sd = BUY then e + md else e - md)\<bar> = md"
    unfolding R by (auto simp: min_distance_tp_def)
  have tp': "tp0 = Some q \<and> md \<le> \<bar>e - q\<bar> \<longrightarrow> snd R = Some q"
    unfolding R by (auto simp: min_distance_tp_def)
  from sl sl' tp tp' R ex show ?thesis by simp
qed

text \<open>
  The example of the specification satisfies the hypotheses: the stop 1.09998 is pushed
  out, the target 1.1004 is left alone.
\<close>

theorem min_distance_enforced_witness:
  "get_symbol_info ex_mt5 ''EURUSD'' = Some ex_symbol \<and>
   stop_loss_block ex_symbol BUY (11000 / 10000) near_sl = Some (109998 / 100000) \<and>
   \<bar>11000 / 10000 - 109998 / 100000\<bar> < rat_of_int (STOP_LEVEL_PIPS ex_cfg) * point ex_symbol \<and>
   fst (calculate_sl_tp_prices ex_cfg ex_mt5 ''EURUSD'' BUY (11000 / 10000) near_sl ex_tp)
     = Some (11000 / 10000 - rat_of_int (STOP_LEVEL_PIPS ex_cfg) * point ex_symbol) \<and>
   take_profit_block ex_symbol BUY (11000 / 10000) ex_tp
       (stop_loss_block ex_symbol BUY (11000 / 10000) near_sl) = Some (11004 / 10000) \<and>
   rat_of_int (STOP_LEVEL_PIPS ex_cfg) * point ex_symbol \<le> \<bar>11000 / 10000 - 11004 / 10000\<bar> \<and>
   snd (calculate_sl_tp_prices ex_cfg ex_mt5 ''EURUSD'' BUY (11000 / 10000) near_sl ex_tp)
     = Some (11004 / 10000)"
proof -
  have h: "get_symbol_info ex_mt5 ''EURUSD'' = Some ex_symbol"
    by (simp add: ex_mt5_def)
  have s: "stop_loss_block ex_symbol BUY (11000 / 10000) near_sl = Some (109998 / 100000)"
    by code_simp
  have d: "\<bar>11000 / 10000 - 109998 / 100000\<bar> < rat_of_int (STOP_LEVEL_PIPS ex_cfg) * point ex_symbol"
    by (simp add: ex_cfg_def ex_symbol_def)
  have t: "take_profit_block ex_symbol BUY (11000 / 10000) ex_tp
       (stop_loss_block ex_symbol BUY (11000 / 10000) near_sl) = Some (11004 / 10000)"
    by code_simp
  have d': "rat_of_int (STOP_LEVEL_PIPS ex_cfg) * point ex_symbol \<le> \<bar>11000 / 10000 - 11004 / 10000\<bar>"
    by (simp add: ex_cfg_def ex_symbol_def)
  have n: "(109998 / 100000 :: rat) \<noteq> 0" by simp
  note inst = min_distance_enforced [OF h, where cfg = ex_cfg and sd = BUY and e = "11000 / 10000"
      and slc = near_sl and tpc = ex_tp and p = "109998 / 100000" and q = "11004 / 10000"]
  from inst s n d have a: "fst (calculate_sl_tp_prices ex_cfg ex_mt5 ''EURUSD'' BUY (11000 / 10000) near_sl ex_tp)
     = Some (11000 / 10000 - rat_of_int (STOP_LEVEL_PIPS ex_cfg) * point ex_symbol)"
    by auto
  from inst t d' have b: "snd (calculate_sl_tp_prices ex_cfg ex_mt5 ''EURUSD'' BUY (11000 / 10000) near_sl ex_tp)
     = Some (11004 / 10000)"
    by auto
  from h s d a t d' b show ?thesis by blast
qed

text \<open>
  The claim for every resolved stop fails for a stop that resolves to zero: a BUY at
  1.0 with 2 pips of size 0.5 resolves the stop to 0.0, at distance 1.0 from the entry
  and so closer than the minimum distance 2.5, and the code returns 0.0 and not -1.5.
\<close>

theorem min_distance_counterexample:
  "stop_loss_block zero_symbol BUY 1 zero_sl = Some 0 \<and>
   \<bar>1 - 0\<bar> < rat_of_int (STOP_LEVEL_PIPS ex_cfg) * point zero_symbol \<and>
   fst (calculate_sl_tp_prices ex_cfg zero_mt5 ''IDX'' BUY 1 zero_sl no_tp) = Some 0 \<and>
   1 - rat_of_int (STOP_LEVEL_PIPS ex_cfg) * point zero_symbol = - 3 / 2"
  by code_simp

subsection \<open>Results about executing a signal\<close>

lemma execute_signal_at_sizing:
  assumes "fst (validate_idempotency (idempotency_key sg) now now' (idempotency_cache st))"
    and "subscribe_symbol m (symbol sg)"
    and "get_symbol_info m (symbol sg) = Some si"
    and "symbol_info_tick m (symbol sg) = Some tick"
    and "sl_points_block si (if side sg = BUY then ask tick else bid tick) (sl sg) = Inr pts"
  shows "execute_signal cfg m sg now now' st =
    (let current_price = (if side sg = BUY then ask tick else bid tick);
         st2 = st\<lparr>idempotency_cache :=
                   snd (validate_idempotency (idempotency_key sg) now now' (idempotency_cache st)),
                 calls := calls st @ [Subscribe (symbol sg)]\<rparr>;
         lot = calculate_lot_size cfg m (symbol sg) (risk sg) pts
     in if \<not> truthy lot then (failure LotSizeNotComputed, st2)
        else
          (case calculate_sl_tp_prices cfg m (symbol sg) (side sg) current_price (sl sg) (tp sg) of
             (slp, tpp) \<Rightarrow>
               let request = deal_request m sg (or_else lot 0) current_price slp tpp;
                   st3 = st2\<lparr>calls := calls st2 @ [OrderSend request]\<rparr>
               in (case order_send m request of
                     None \<Rightarrow> (failure (InternalError AttributeError), st3)
                   | Some res \<Rightarrow>
                       if res_retcode res \<noteq> TRADE_RETCODE_DONE m then
                         (failure (OrderFailed (res_comment res)), st3)
                       else
                         (\<lparr>success = True,
                           order_id = Some (res_order res),
                           position_id = Some (res_position res),
                           executed_price = Some (res_price res),
                           sl_price = slp,
                           tp_price = tpp,
                           lot_size = lot,
                           error_message = None,
                           server_time = Some (res_time res)\<rparr>, st3))))"
  using assms
  by (cases "validate_idempotency (idempotency_key sg) now now' (idempotency_cache st)")
     (simp add: execute_signal_def Let_def)

lemma calculate_lot_size_free_margin:
  "calculate_lot_size cfg (m\<lparr>get_account_info := map_option (\<lambda>a. a\<lparr>free_margin := fm\<rparr>) (get_account_info m)\<rparr>)
     smb rc pts = calculate_lot_size cfg m smb rc pts"
  by (simp add: calculate_lot_size_def split: option.splits)

lemma calculate_sl_tp_prices_free_margin:
  "calculate_sl_tp_prices cfg (m\<lparr>get_account_info := x\<rparr>) smb sd e slc tpc
     = calculate_sl_tp_prices cfg m smb sd e slc tpc"
  by (simp add: calculate_sl_tp_prices_def)

lemma deal_request_free_margin:
  "deal_request (m\<lparr>get_account_info := x\<rparr>) sg lot cp slp tpp = deal_request m sg lot cp slp tpp"
  by (simp add: deal_request_def)

lemma execute_signal_free_margin:
  "execute_signal cfg (m\<lparr>get_account_info := map_option (\<lambda>a. a\<lparr>free_margin := fm\<rparr>) (get_account_info m)\<rparr>)
     sg now now' st = execute_signal cfg m sg now now' st"
  unfolding execute_signal_def calculate_lot_size_free_margin calculate_sl_tp_prices_free_margin
    deal_request_free_margin
  by (simp add: Let_def cong: if_cong option.case_cong sum.case_cong prod.case_cong)

text \<open>
  C7. Let a signal pass the idempotency guard, the subscription, the symbol lookup and
  the price lookup, and let its stop distance be derived as \<open>pts\<close> points. If the loss
  per lot \<open>pts * point * tick_value * contract_size\<close> is zero or negative, as it is for a
  stop distance of 0 points, \<^verbatim>\<open>execute_signal\<close> answers the failure "Lot-Groesse konnte
  nicht berechnet werden", and the subscription is the only broker call it has made: no
  order is sent.
\<close>

theorem nonpositive_loss_per_lot_rejected:
  assumes "fst (validate_idempotency (idempotency_key sg) now now' (idempotency_cache st))"
    and "subscribe_symbol m (symbol sg)"
    and "get_symbol_info m (symbol sg) = Some si"
    and "symbol_info_tick m (symbol sg) = Some tick"
    and "sl_points_block si (if side sg = BUY then ask tick else bid tick) (sl sg) = Inr pts"
    and "pts * point si * tick_value si * contract_size si \<le> 0"
  shows "execute_signal cfg m sg now now' st =
      (failure LotSizeNotComputed,
       st\<lparr>idempotency_cache :=
            snd (validate_idempotency (idempotency_key sg) now now' (idempotency_cache st)),
          calls := calls st @ [Subscribe (symbol sg)]\<rparr>)"
proof -
  have "pts * point si * (tick_value si * contract_size si) \<le> 0"
    using assms(6) by (simp add: mult.assoc)
  then have "calculate_lot_size cfg m (symbol sg) (risk sg) pts = None"
    using assms(3) by (rule calculate_lot_size_nonpositive [rotated])
  then show ?thesis
    unfolding execute_signal_at_sizing [OF assms(1-5)]
    by (simp add: truthy_def Let_def)
qed

text \<open>
  The example signal without a stop has a stop distance of 0 points and is refused in
  this way.
\<close>

theorem nonpositive_loss_per_lot_rejected_witness:
  "sl_points_block ex_symbol (11 / 10) no_sl = Inr 0 \<and>
   execute_signal ex_cfg ex_mt5 (ex_signal\<lparr>sl := no_sl\<rparr>) 0 0 ex_engine =
     (failure LotSizeNotComputed,
      ex_engine\<lparr>idempotency_cache :=
            snd (validate_idempotency ''k1'' 0 0 (idempotency_cache ex_engine)),
          calls := [Subscribe ''EURUSD'']\<rparr>)"
proof -
  have 1: "fst (validate_idempotency (idempotency_key (ex_signal\<lparr>sl := no_sl\<rparr>)) 0 0
      (idempotency_cache ex_engine))"
    by (simp add: validate_idempotency_def ex_signal_def ex_engine_def Let_def)
  have 2: "subscribe_symbol ex_mt5 (symbol (ex_signal\<lparr>sl := no_sl\<rparr>))"
    by (simp add: ex_mt5_def)
  have 3: "get_symbol_info ex_mt5 (symbol (ex_signal\<lparr>sl := no_sl\<rparr>)) = Some ex_symbol"
    by (simp add: ex_mt5_def ex_signal_def)
  have 4: "symbol_info_tick ex_mt5 (symbol (ex_signal\<lparr>sl := no_sl\<rparr>))
      = Some \<lparr>bid = 10999 / 10000, ask = 11 / 10\<rparr>"
    by (simp add: ex_mt5_def)
  have 5: "sl_points_block ex_symbol
      (if side (ex_signal\<lparr>sl := no_sl\<rparr>) = BUY then ask \<lparr>bid = 10999 / 10000, ask = 11 / 10\<rparr>
       else bid \<lparr>bid = 10999 / 10000, ask = 11 / 10\<rparr>) (sl (ex_signal\<lparr>sl := no_sl\<rparr>)) = Inr 0"
    by (simp add: sl_points_block_def no_sl_def truthy_def)
  have 6: "(0::rat) * point ex_symbol * tick_value ex_symbol * contract_size ex_symbol \<le> 0"
    by simp
  have 7: "sl_points_block ex_symbol (11 / 10) no_sl = Inr 0"
    by (simp add: sl_points_block_def no_sl_def truthy_def)
  from nonpositive_loss_per_lot_rejected [OF 1 2 3 4 5 6, of ex_cfg] 7
  show ?thesis by (simp add: ex_signal_def ex_engine_def)
qed


text \<open>
  C1, as the code has it. \<^verbatim>\<open>execute_signal\<close> does not call the margin check. For a
  signal that passes the idempotency guard, the subscription, the symbol and price
  lookups and the sizing with a lot size other than zero, the order request with that
  lot size is sent to the broker right after the subscription, and neither the result
  nor the engine after the call depends on the free margin of the account.
\<close>

theorem order_sent_without_margin_check:
  assumes "fst (validate_idempotency (idempotency_key sg) now now' (idempotency_cache st))"
    and "subscribe_symbol m (symbol sg)"
    and "get_symbol_info m (symbol sg) = Some si"
    and "symbol_info_tick m (symbol sg) = Some tick"
    and "sl_points_block si (if side sg = BUY then ask tick else bid tick) (sl sg) = Inr pts"
    and "calculate_lot_size cfg m (symbol sg) (risk sg) pts = Some lot" and "lot \<noteq> 0"
  shows "calls (snd (execute_signal cfg m sg now now' st)) =
      calls st @
        [Subscribe (symbol sg),
         OrderSend
           (deal_request m sg lot (if side sg = BUY then ask tick else bid tick)
              (fst (calculate_sl_tp_prices cfg m (symbol sg) (side sg)
                      (if side sg = BUY then ask tick else bid tick) (sl sg) (tp sg)))
              (snd (calculate_sl_tp_prices cfg m (symbol sg) (side sg)
                      (if side sg = BUY then ask tick else bid tick) (sl sg) (tp sg))))] \<and>
     execute_signal cfg
        (m\<lparr>get_account_info := map_option (\<lambda>a. a\<lparr>free_margin := fm\<rparr>) (get_account_info m)\<rparr>)
        sg now now' st
      = execute_signal cfg m sg now now' st"
proof -
  have "calls (snd (execute_signal cfg m sg now now' st)) =
      calls st @
        [Subscribe (symbol sg),
         OrderSend
           (deal_request m sg lot (if side sg = BUY then ask tick else bid tick)
              (fst (calculate_sl_tp_prices cfg m (symbol sg) (side sg)
                      (if side sg = BUY then ask tick else bid tick) (sl sg) (tp sg)))
              (snd (calculate_sl_tp_prices cfg m (symbol sg) (side sg)
                      (if side sg = BUY then ask tick else bid tick) (sl sg) (tp sg))))]"
    unfolding execute_signal_at_sizing [OF assms(1-5)]
    using assms(6,7)
    by (simp add: truthy_def or_else_def Let_def split: prod.splits option.splits)
  then show ?thesis
    using execute_signal_free_margin by simp
qed

text \<open>
  The hypotheses hold for the example signal, whose lot size 5 needs a margin of 5000
  against a free margin of 4000.
\<close>

theorem order_sent_without_margin_check_witness:
  "\<not> check_margin_sufficient ex_mt5 ''EURUSD'' 5 (11 / 10) \<and>
   calculate_lot_size ex_cfg ex_mt5 (symbol ex_signal) (risk ex_signal) 20 = Some 5 \<and>
   calls (snd (execute_signal ex_cfg ex_mt5 ex_signal 0 0 ex_engine)) =
     [Subscribe ''EURUSD'',
      OrderSend (deal_request ex_mt5 ex_signal 5 (11 / 10) (Some (10998 / 10000))
                   (Some (11004 / 10000)))]"
proof -
  have 1: "fst (validate_idempotency (idempotency_key ex_signal) 0 0 (idempotency_cache ex_engine))"
    by (simp add: validate_idempotency_def ex_signal_def ex_engine_def Let_def)
  have 2: "subscribe_symbol ex_mt5 (symbol ex_signal)"
    by (simp add: ex_mt5_def)
  have 3: "get_symbol_info ex_mt5 (symbol ex_signal) = Some ex_symbol"
    by (simp add: ex_mt5_def ex_signal_def)
  have 4: "symbol_info_tick ex_mt5 (symbol ex_signal) = Some \<lparr>bid = 10999 / 10000, ask = 11 / 10\<rparr>"
    by (simp add: ex_mt5_def)
  have 5: "sl_points_block ex_symbol
      (if side ex_signal = BUY then ask \<lparr>bid = 10999 / 10000, ask = 11 / 10\<rparr>
       else bid \<lparr>bid = 10999 / 10000, ask = 11 / 10\<rparr>) (sl ex_signal) = Inr 20"
    by (simp add: sl_points_block_def ex_signal_def ex_sl_def truthy_def or_else_def)
  have 6: "calculate_lot_size ex_cfg ex_mt5 (symbol ex_signal) (risk ex_signal) 20 = Some 5"
    by code_simp
  have 7: "(5::rat) \<noteq> 0" by simp
  have 8: "\<not> check_margin_sufficient ex_mt5 ''EURUSD'' 5 (11 / 10)"
    by code_simp
  have 9: "calculate_sl_tp_prices ex_cfg ex_mt5 (symbol ex_signal) (side ex_signal) (11 / 10)
      (sl ex_signal) (tp ex_signal) = (Some (10998 / 10000), Some (11004 / 10000))"
    by code_simp
  have 10: "side ex_signal = BUY" "symbol ex_signal = ''EURUSD''" "calls ex_engine = []"
    by (simp_all add: ex_signal_def ex_engine_def)
  from order_sent_without_margin_check [OF 1 2 3 4 5 6 7] 6 8 9 10
  show ?thesis by simp
qed

text \<open>
  The claim that such an order is refused fails on the example of the specification
  (section 8, item 6): forex, contract size 100000, leverage 100, lot size 5, required
  margin 5000, free margin 4000. The margin check answers insufficient, and
  \<^verbatim>\<open>execute_signal\<close> sends the order and reports success.
\<close>

theorem margin_not_checked_counterexample:
  "calculate_margin_required ex_mt5 ''EURUSD'' 5 (11 / 10) = Some 5000 \<and>
   free_margin ex_account = 4000 \<and>
   \<not> check_margin_sufficient ex_mt5 ''EURUSD'' 5 (11 / 10) \<and>
   fst (execute_signal ex_cfg ex_mt5 ex_signal 0 0 ex_engine) =
     \<lparr>success = True, order_id = Some 1000001, position_id = Some 1000001,
      executed_price = Some (11 / 10), sl_price = Some (10998 / 10000),
      tp_price = Some (11004 / 10000), lot_size = Some 5, error_message = None,
      server_time = Some 1700000000\<rparr> \<and>
   calls (snd (execute_signal ex_cfg ex_mt5 ex_signal 0 0 ex_engine)) =
     [Subscribe ''EURUSD'',
      OrderSend (deal_request ex_mt5 ex_signal 5 (11 / 10) (Some (10998 / 10000))
                   (Some (11004 / 10000)))]"
  by code_simp


subsection \<open>Results about the margin check\<close>

text \<open>
  C8, as the code has it: in double arithmetic, every product and quotient being the
  double nearest to the exact one. With the symbol and the account available, two
  distinct mode constants and, in forex mode, a leverage other than zero, the required
  margin is
  \<^item> \<open>(contract_size * lot_size) / leverage\<close> in forex mode,
  \<^item> \<open>(contract_size * lot_size) * margin_rate\<close> in futures mode,
  \<^item> \<open>margin_required * lot_size\<close> in every other mode,
  and the check answers sufficient exactly when the free margin is at least this
  computed double.
\<close>

theorem margin_estimate_and_check:
  assumes "symbol_info m smb = Some raw" and "get_account_info m = Some acc"
    and "SYMBOL_CALC_MODE_FOREX m \<noteq> SYMBOL_CALC_MODE_FUTURES m"
    and "raw_margin_mode raw = SYMBOL_CALC_MODE_FOREX m \<longrightarrow> leverage acc \<noteq> 0"
  shows
    "(raw_margin_mode raw = SYMBOL_CALC_MODE_FOREX m \<longrightarrow>
        calculate_margin_required m smb v p
          = Some (fdiv (fmul (fl (raw_trade_contract_size raw)) (fl v))
                    (fl (of_int (leverage acc))))) \<and>
     (raw_margin_mode raw = SYMBOL_CALC_MODE_FUTURES m \<longrightarrow>
        calculate_margin_required m smb v p
          = Some (fmul (fmul (fl (raw_trade_contract_size raw)) (fl v))
                    (fl (raw_margin_rate raw)))) \<and>
     (raw_margin_mode raw \<noteq> SYMBOL_CALC_MODE_FOREX m \<and>
      raw_margin_mode raw \<noteq> SYMBOL_CALC_MODE_FUTURES m \<longrightarrow>
        calculate_margin_required m smb v p = Some (fmul (fl (raw_margin_required raw)) (fl v))) \<and>
     (\<exists>required. calculate_margin_required m smb v p = Some required \<and>
        check_margin_sufficient m smb v p = (fl (free_margin acc) \<ge> required))"
  using assms
  by (auto simp: calculate_margin_required_def check_margin_sufficient_def get_margin_info_def
      get_account_summary_def)

text \<open>
  The forex example of the specification: 5 lots need 5000 and are refused on a free
  margin of 4000, 4 lots need exactly 4000 and pass. The same symbol in futures mode
  and in another mode.
\<close>

theorem margin_estimate_and_check_witness:
  "calculate_margin_required ex_mt5 ''EURUSD'' 5 (11 / 10) = Some 5000 \<and>
   \<not> check_margin_sufficient ex_mt5 ''EURUSD'' 5 (11 / 10) \<and>
   check_margin_sufficient ex_mt5 ''EURUSD'' 4 (11 / 10) \<and>
   calculate_margin_required
       (ex_mt5\<lparr>symbol_info := (\<lambda>s. Some (ex_raw\<lparr>raw_margin_mode := 1\<rparr>))\<rparr>) ''EURUSD'' 5 (11 / 10)
     = Some (fmul (fmul 100000 5) (fl (1 / 10))) \<and>
   calculate_margin_required
       (ex_mt5\<lparr>symbol_info := (\<lambda>s. Some (ex_raw\<lparr>raw_margin_mode := 2\<rparr>))\<rparr>) ''EURUSD'' 5 (11 / 10)
     = Some 5000"
proof -
  have 1: "symbol_info ex_mt5 ''EURUSD'' = Some ex_raw"
    by (simp add: ex_mt5_def)
  have 2: "get_account_info ex_mt5 = Some ex_account"
    by (simp add: ex_mt5_def)
  have 3: "SYMBOL_CALC_MODE_FOREX ex_mt5 \<noteq> SYMBOL_CALC_MODE_FUTURES ex_mt5"
    by (simp add: ex_mt5_def)
  have 4: "raw_margin_mode ex_raw = SYMBOL_CALC_MODE_FOREX ex_mt5 \<longrightarrow> leverage ex_account \<noteq> 0"
    by (simp add: ex_account_def)
  have a: "calculate_margin_required ex_mt5 ''EURUSD'' 5 (11 / 10) = Some 5000"
    "\<not> check_margin_sufficient ex_mt5 ''EURUSD'' 5 (11 / 10)"
    "check_margin_sufficient ex_mt5 ''EURUSD'' 4 (11 / 10)"
    by code_simp+
  have c: "calculate_margin_required
       (ex_mt5\<lparr>symbol_info := (\<lambda>s. Some (ex_raw\<lparr>raw_margin_mode := 1\<rparr>))\<rparr>) ''EURUSD'' 5 (11 / 10)
     = Some (fmul (fmul 100000 5) (fl (1 / 10)))"
    by code_simp
  have d: "calculate_margin_required
       (ex_mt5\<lparr>symbol_info := (\<lambda>s. Some (ex_raw\<lparr>raw_margin_mode := 2\<rparr>))\<rparr>) ''EURUSD'' 5 (11 / 10)
     = Some 5000"
    by code_simp
  from margin_estimate_and_check [OF 1 2 3 4, of 5 "11 / 10"] a c d show ?thesis by simp
qed

text \<open>
  The claim read with the exact formula fails where the free margin equals the
  requirement. For the double 0.01 as lot size, leverage 100 and a free margin of 10
  the code computes 100000 * 0.01 as 1000 and the requirement as 10 and answers
  sufficient, while the exact requirement of this lot size is above 10. For a lot size
  of 0.07 and a free margin of 70 the code computes the requirement
  70.00000000000001 and answers insufficient, while the exact requirement of 0.07
  lots is 70.
\<close>

theorem margin_estimate_counterexample:
  "check_margin_sufficient par_mt5 ''EURUSD'' (fl (1 / 100)) (11 / 10) \<and>
   calculate_margin_required par_mt5 ''EURUSD'' (fl (1 / 100)) (11 / 10) = Some 10 \<and>
   free_margin par_account = 10 \<and>
   spec_required_margin par_mt5 ex_raw par_account (fl (1 / 100))
     = 10 + 15 / 72057594037927936 \<and>
   \<not> spec_margin_sufficient par_mt5 ex_raw par_account (fl (1 / 100)) \<and>
   \<not> check_margin_sufficient lim_mt5 ''EURUSD'' (7 / 100) (11 / 10) \<and>
   calculate_margin_required lim_mt5 ''EURUSD'' (7 / 100) (11 / 10)
     = Some (70 + 1 / 70368744177664) \<and>
   spec_required_margin lim_mt5 ex_raw lim_account (7 / 100) = 70 \<and>
   spec_margin_sufficient lim_mt5 ex_raw lim_account (7 / 100)"
  by code_simp

subsection \<open>Results about modifying and closing a position\<close>

text \<open>
  C10. For an existing position, \<^verbatim>\<open>modify_position\<close> sends exactly one request; a
  stop-loss argument that is \<^verbatim>\<open>None\<close> or 0.0 is replaced in it by the stop-loss of the
  position, and likewise for the take-profit, so passing zero does not clear either.
  \<^verbatim>\<open>close_position\<close> sends exactly one request; a volume argument that is \<^verbatim>\<open>None\<close> or
  0.0 is replaced in it by the full volume of the position.
\<close>

theorem zero_reads_as_absent:
  assumes "positions_get m ticket = pos # rest"
  shows
    "(sl_arg = None \<or> sl_arg = Some 0 \<longrightarrow>
        calls (snd (modify_position m ticket sl_arg tp_arg st))
          = calls st @ [OrderSend (sltp_request m ticket pos sl_arg tp_arg)] \<and>
        rq_sl (sltp_request m ticket pos sl_arg tp_arg) = Some (pos_sl pos)) \<and>
     (tp_arg = None \<or> tp_arg = Some 0 \<longrightarrow>
        calls (snd (modify_position m ticket sl_arg tp_arg st))
          = calls st @ [OrderSend (sltp_request m ticket pos sl_arg tp_arg)] \<and>
        rq_tp (sltp_request m ticket pos sl_arg tp_arg) = Some (pos_tp pos)) \<and>
     (volume_arg = None \<or> volume_arg = Some 0 \<longrightarrow>
        calls (snd (close_position m ticket volume_arg st))
          = calls st @ [OrderSend (close_request m ticket pos volume_arg)] \<and>
        rq_volume (close_request m ticket pos volume_arg) = Some (pos_volume pos))"
proof -
  have m: "calls (snd (modify_position m ticket sl_arg tp_arg st))
          = calls st @ [OrderSend (sltp_request m ticket pos sl_arg tp_arg)]"
    using assms by (simp add: modify_position_def Let_def split: option.splits)
  have c: "calls (snd (close_position m ticket volume_arg st))
          = calls st @ [OrderSend (close_request m ticket pos volume_arg)]"
    using assms by (simp add: close_position_def Let_def split: option.splits)
  show ?thesis
    unfolding m c by (auto simp: sltp_request_def close_request_def or_else_def)
qed

text \<open>
  The position of the example, with stop 1.0998, target 1.1004 and volume 5, modified
  and closed with zero arguments.
\<close>

theorem zero_reads_as_absent_witness:
  "positions_get ex_mt5 1000001 = [ex_position] \<and>
   calls (snd (modify_position ex_mt5 1000001 (Some 0) None ex_engine))
     = [OrderSend (sltp_request ex_mt5 1000001 ex_position (Some 0) None)] \<and>
   rq_sl (sltp_request ex_mt5 1000001 ex_position (Some 0) None) = Some (10998 / 10000) \<and>
   rq_tp (sltp_request ex_mt5 1000001 ex_position (Some 0) None) = Some (11004 / 10000) \<and>
   calls (snd (close_position ex_mt5 1000001 (Some 0) ex_engine))
     = [OrderSend (close_request ex_mt5 1000001 ex_position (Some 0))] \<and>
   rq_volume (close_request ex_mt5 1000001 ex_position (Some 0)) = Some 5"
proof -
  have h: "positions_get ex_mt5 1000001 = ex_position # []"
    by (simp add: ex_mt5_def)
  from zero_reads_as_absent [OF h, of "Some 0" None ex_engine "Some 0"] h
  show ?thesis by (simp add: ex_engine_def ex_position_def)
qed

end
